theory Spec2Isabelle
  imports Main "HOL-Library.List_Lexorder" "HOL-Library.Char_ord" "HOL-Library.AList"
begin

section \<open>Data model of the relational store\<close>

text \<open>
  The three tables read by \<^verbatim>\<open>Backend/app.py\<close>. Identifier columns
  (\<^verbatim>\<open>ndetalle\<close>, \<^verbatim>\<open>codigo\<close>) are text keys; the attribute columns and
  \<^verbatim>\<open>url\<close> are nullable, as the source's \<^verbatim>\<open>IS NOT NULL\<close> filters and its
  \<^verbatim>\<open>result[0] is None\<close> test show. A table is the list of its rows.
\<close>

record sentencia =
  ndetalle :: string
  codigo_organo :: "string option"
  codigo_recurso :: "string option"
  especialidad_expe :: "string option"
  organo_detalle :: "string option"
  url :: "string option"

record juez =
  codigo :: string
  nombre_juez :: "string option"

record sentencia_juez =
  sj_ndetalle :: string
  sj_codigo :: string

record database =
  sentencias_y_autos :: "sentencia list"
  sentencias_jueces :: "sentencia_juez list"
  jueces :: "juez list"

section \<open>The query builder of \<^verbatim>\<open>buscar_sentencias\<close>\<close>

text \<open>The five optional query parameters of \<^verbatim>\<open>/search\<close> (\<^verbatim>\<open>Optional[str]\<close>).\<close>

record filtros =
  p_codigo_organo :: "string option"
  p_codigo_recurso :: "string option"
  p_especialidad_expe :: "string option"
  p_organo_detalle :: "string option"
  p_nombre_juez :: "string option"

text \<open>The column a condition of the WHERE clause compares.\<close>

datatype columna = Codigo_organo | Codigo_recurso | Especialidad_expe | Organo_detalle | Nombre_juez

text \<open>A bound parameter of \<^verbatim>\<open>cur.execute\<close>: the filter strings, then the two integers.\<close>

datatype param = P_str string | P_int int

fun cond_sql :: "columna \<Rightarrow> string" where
  "cond_sql Codigo_organo = ''s.codigo_organo = %s''"
| "cond_sql Codigo_recurso = ''s.codigo_recurso = %s''"
| "cond_sql Especialidad_expe = ''s.especialidad_expe = %s''"
| "cond_sql Organo_detalle = ''s.organo_detalle = %s''"
| "cond_sql Nombre_juez = ''j.nombre_juez = %s''"

text \<open>
  One \<^verbatim>\<open>if x: filtros_where.append(...); params.append(x)\<close> of the source. Python's
  truth test on an \<^verbatim>\<open>Optional[str]\<close> fails for \<^verbatim>\<open>None\<close> and for the empty string.
\<close>

fun si_presente :: "columna \<Rightarrow> string option \<Rightarrow> (columna \<times> string) list" where
  "si_presente c None = []"
| "si_presente c (Some v) = (if v = [] then [] else [(c, v)])"

text \<open>The conditions appended, each with the value collected for it, in the source's order.\<close>

definition condiciones :: "filtros \<Rightarrow> (columna \<times> string) list" where
  "condiciones f =
     si_presente Codigo_organo (p_codigo_organo f) @
     si_presente Codigo_recurso (p_codigo_recurso f) @
     si_presente Especialidad_expe (p_especialidad_expe f) @
     si_presente Organo_detalle (p_organo_detalle f) @
     si_presente Nombre_juez (p_nombre_juez f)"

definition filtros_where :: "filtros \<Rightarrow> string list" where
  "filtros_where f = map (\<lambda>cv. cond_sql (fst cv)) (condiciones f)"

definition params :: "filtros \<Rightarrow> param list" where
  "params f = map (\<lambda>cv. P_str (snd cv)) (condiciones f)"

definition necesita_join_jueces :: "filtros \<Rightarrow> bool" where
  "necesita_join_jueces f = (p_nombre_juez f \<noteq> None)"

definition from_clause :: "filtros \<Rightarrow> string" where
  "from_clause f =
     ''sentencias_y_autos s'' @
     (if necesita_join_jueces f
      then '' JOIN sentencias_jueces sj ON sj.ndetalle = s.ndetalle JOIN jueces j ON j.codigo = sj.codigo''
      else '' LEFT JOIN sentencias_jueces sj ON sj.ndetalle = s.ndetalle LEFT JOIN jueces j ON j.codigo = sj.codigo'')"

text \<open>Python's \<^verbatim>\<open>sep.join(xs)\<close>.\<close>

fun join_str :: "string \<Rightarrow> string list \<Rightarrow> string" where
  "join_str sep [] = []"
| "join_str sep [x] = x"
| "join_str sep (x # y # ys) = x @ sep @ join_str sep (y # ys)"

definition where_sql :: "filtros \<Rightarrow> string" where
  "where_sql f =
     (if filtros_where f = [] then [] else ''WHERE '' @ join_str '' AND '' (filtros_where f))"

text \<open>A line break followed by the eight blanks of the source's triple-quoted templates.\<close>

definition nl8 :: string where
  "nl8 = CHR 0x0A # ''        ''"

definition count_query :: "filtros \<Rightarrow> string" where
  "count_query f =
     nl8 @ ''SELECT COUNT(DISTINCT s.ndetalle)'' @
     nl8 @ ''FROM '' @ from_clause f @
     nl8 @ where_sql f @ '';'' @ CHR 0x0A # ''    ''"

definition select_query :: "filtros \<Rightarrow> string" where
  "select_query f =
     nl8 @ ''SELECT DISTINCT s.ndetalle, s.url'' @
     nl8 @ ''FROM '' @ from_clause f @
     nl8 @ where_sql f @
     nl8 @ ''ORDER BY s.ndetalle'' @
     nl8 @ ''LIMIT %s OFFSET %s;'' @ CHR 0x0A # ''    ''"

definition params_with_pagination :: "filtros \<Rightarrow> int \<Rightarrow> int \<Rightarrow> param list" where
  "params_with_pagination f limit offset = params f @ [P_int limit, P_int offset]"

text \<open>The two tests the source applies to a parameter.\<close>

definition no_vacio :: "string option \<Rightarrow> bool" where
  "no_vacio v = (case v of None \<Rightarrow> False | Some s \<Rightarrow> s \<noteq> [])"

definition mismos_presentes :: "filtros \<Rightarrow> filtros \<Rightarrow> bool" where
  "mismos_presentes f g =
     (no_vacio (p_codigo_organo f) = no_vacio (p_codigo_organo g) \<and>
      no_vacio (p_codigo_recurso f) = no_vacio (p_codigo_recurso g) \<and>
      no_vacio (p_especialidad_expe f) = no_vacio (p_especialidad_expe g) \<and>
      no_vacio (p_organo_detalle f) = no_vacio (p_organo_detalle g) \<and>
      no_vacio (p_nombre_juez f) = no_vacio (p_nombre_juez g) \<and>
      (p_nombre_juez f = None) = (p_nombre_juez g = None))"

definition sin_filtros :: filtros where
  "sin_filtros = \<lparr>p_codigo_organo = None, p_codigo_recurso = None, p_especialidad_expe = None,
     p_organo_detalle = None, p_nombre_juez = None\<rparr>"

section \<open>The store: what PostgreSQL answers to the queries built above\<close>

text \<open>
  The handlers send SQL text to PostgreSQL through \<^verbatim>\<open>psycopg2\<close>. The store is modelled
  by the meaning of the queries the source can build: a query is given by the join of its
  FROM clause (inner or left), the columns of its WHERE conditions and the bound parameters;
  \<^verbatim>\<open>from_clause\<close> and \<^verbatim>\<open>where_sql\<close> above are the text rendered from the same two
  components.
\<close>

text \<open>
  What a handler can end with besides its result: the 404 it raises itself, a failure of the
  store (no connection, a rejected statement), and the \<^verbatim>\<open>ValueError\<close> that
  \<^verbatim>\<open>psycopg2\<close> raises when it is given a string with a NUL character to bind.
\<close>

datatype error = NotFound | StoreFailure | ValueError

type_synonym fila = "sentencia \<times> sentencia_juez option \<times> juez option"

definition asociaciones_de :: "database \<Rightarrow> sentencia \<Rightarrow> sentencia_juez list" where
  "asociaciones_de d s = filter (\<lambda>sj. sj_ndetalle sj = ndetalle s) (sentencias_jueces d)"

definition jueces_de :: "database \<Rightarrow> sentencia_juez \<Rightarrow> juez list" where
  "jueces_de d sj = filter (\<lambda>j. codigo j = sj_codigo sj) (jueces d)"

text \<open>\<^verbatim>\<open>s JOIN sj ON sj.ndetalle = s.ndetalle JOIN j ON j.codigo = sj.codigo\<close>\<close>

definition inner_join :: "database \<Rightarrow> fila list" where
  "inner_join d =
     concat (map (\<lambda>s. concat (map (\<lambda>sj. map (\<lambda>j. (s, Some sj, Some j)) (jueces_de d sj))
                                 (asociaciones_de d s)))
                 (sentencias_y_autos d))"

text \<open>The same chain with \<^verbatim>\<open>LEFT JOIN\<close>: a row without a partner is kept, padded with nulls.\<close>

definition left_jueces :: "database \<Rightarrow> sentencia \<Rightarrow> sentencia_juez \<Rightarrow> fila list" where
  "left_jueces d s sj =
     (if jueces_de d sj = [] then [(s, Some sj, None)]
      else map (\<lambda>j. (s, Some sj, Some j)) (jueces_de d sj))"

definition left_filas :: "database \<Rightarrow> sentencia \<Rightarrow> fila list" where
  "left_filas d s =
     (if asociaciones_de d s = [] then [(s, None, None)]
      else concat (map (left_jueces d s) (asociaciones_de d s)))"

definition left_join :: "database \<Rightarrow> fila list" where
  "left_join d = concat (map (left_filas d) (sentencias_y_autos d))"

definition filas_from :: "database \<Rightarrow> bool \<Rightarrow> fila list" where
  "filas_from d con_join = (if con_join then inner_join d else left_join d)"

fun valor_columna :: "columna \<Rightarrow> fila \<Rightarrow> string option" where
  "valor_columna Codigo_organo (s, sj, j) = codigo_organo s"
| "valor_columna Codigo_recurso (s, sj, j) = codigo_recurso s"
| "valor_columna Especialidad_expe (s, sj, j) = especialidad_expe s"
| "valor_columna Organo_detalle (s, sj, j) = organo_detalle s"
| "valor_columna Nombre_juez (s, sj, j) = (case j of None \<Rightarrow> None | Some j' \<Rightarrow> nombre_juez j')"

text \<open>An SQL equality is true only when the column is not null and equals the bound value.\<close>

definition cumple :: "(columna \<times> string) list \<Rightarrow> fila \<Rightarrow> bool" where
  "cumple conds r = list_all (\<lambda>cv. valor_columna (fst cv) r = Some (snd cv)) conds"

definition con_nul :: "string \<Rightarrow> bool" where
  "con_nul v = (CHR 0x00 \<in> set v)"

text \<open>
  Binding: the k-th \<^verbatim>\<open>%s\<close> takes the k-th parameter. A string with a NUL character is
  refused with \<^verbatim>\<open>ValueError\<close>. Too few or too many parameters, or an integer compared
  with a text column, make the execution fail.
\<close>

fun ligar :: "columna list \<Rightarrow> param list \<Rightarrow> error + (columna \<times> string) list" where
  "ligar [] [] = Inr []"
| "ligar (c # cs) (P_str v # ps) =
     (if con_nul v then Inl ValueError
      else case ligar cs ps of Inl e \<Rightarrow> Inl e | Inr conds \<Rightarrow> Inr ((c, v) # conds))"
| "ligar cs ps = Inl StoreFailure"

fun paginacion :: "param list \<Rightarrow> (int \<times> int) option" where
  "paginacion [P_int l, P_int k] = Some (l, k)"
| "paginacion ps = None"

text \<open>PostgreSQL rejects a negative LIMIT or OFFSET, and one beyond its 64-bit integers.\<close>

definition limite_valido :: "int \<Rightarrow> bool" where
  "limite_valido n = (0 \<le> n \<and> n \<le> 9223372036854775807)"

text \<open>\<^verbatim>\<open>SELECT COUNT(DISTINCT s.ndetalle) FROM ... WHERE ...\<close>\<close>

definition ejecutar_count :: "database \<Rightarrow> bool \<Rightarrow> columna list \<Rightarrow> param list \<Rightarrow> error + nat" where
  "ejecutar_count d con_join cols ps =
     (case ligar cols ps of
        Inl e \<Rightarrow> Inl e
      | Inr conds \<Rightarrow>
          Inr (length (remdups (map (\<lambda>r. ndetalle (fst r))
                                    (filter (cumple conds) (filas_from d con_join))))))"

type_synonym fila_pagina = "string \<times> string option"

text \<open>
  \<^verbatim>\<open>SELECT DISTINCT s.ndetalle, s.url FROM ... WHERE ... ORDER BY s.ndetalle\<close>, before the
  page is cut. Identifiers are compared as strings of bytes, first difference first (what
  Python's \<^verbatim>\<open>sorted\<close> does on \<^verbatim>\<open>str\<close>); the properties below use only that this is a
  linear order. SQL leaves open the order of two rows with the same identifier: it is the
  store's, given by the rank \<open>des\<close> it puts on the rows, the sort by identifier being stable.
\<close>

definition filas_select ::
  "(fila_pagina \<Rightarrow> nat) \<Rightarrow> database \<Rightarrow> bool \<Rightarrow> (columna \<times> string) list \<Rightarrow> fila_pagina list" where
  "filas_select des d con_join conds =
     sort_key fst (sort_key des
       (remdups (map (\<lambda>r. (ndetalle (fst r), url (fst r)))
                     (filter (cumple conds) (filas_from d con_join)))))"

definition ejecutar_select ::
  "(fila_pagina \<Rightarrow> nat) \<Rightarrow> database \<Rightarrow> bool \<Rightarrow> columna list \<Rightarrow> param list \<Rightarrow>
     error + fila_pagina list" where
  "ejecutar_select des d con_join cols ps =
     (case ligar cols (take (length cols) ps) of
        Inl e \<Rightarrow> Inl e
      | Inr conds \<Rightarrow>
          (case paginacion (drop (length cols) ps) of
             None \<Rightarrow> Inl StoreFailure
           | Some (l, k) \<Rightarrow>
               if limite_valido l \<and> limite_valido k
               then Inr (take (nat l) (drop (nat k) (filas_select des d con_join conds)))
               else Inl StoreFailure))"

subsection \<open>Reading the text of a statement\<close>

text \<open>
  The store is given text. It reads the two statements of this fragment of SQL: a count of
  distinct identifiers, or a page of distinct (identifier, path) rows ordered by identifier
  with a bound limit and offset; each over the decision table joined to the association and
  judges tables by inner or by left joins, with an optional conjunction of equalities between
  a column and a placeholder. Blanks and line breaks between the clauses do not matter. Any
  other text is a syntax error.
\<close>

fun quitar :: "string \<Rightarrow> string \<Rightarrow> string option" where
  "quitar [] s = Some s"
| "quitar (p # ps) [] = None"
| "quitar (p # ps) (c # cs) = (if p = c then quitar ps cs else None)"

text \<open>The words of the fragment.\<close>

definition kw_count :: string where "kw_count = ''SELECT COUNT(DISTINCT s.ndetalle)''"
definition kw_select :: string where "kw_select = ''SELECT DISTINCT s.ndetalle, s.url''"
definition kw_from :: string where "kw_from = ''FROM ''"
definition kw_inner :: string where
  "kw_inner = ''sentencias_y_autos s JOIN sentencias_jueces sj ON sj.ndetalle = s.ndetalle JOIN jueces j ON j.codigo = sj.codigo''"
definition kw_left :: string where
  "kw_left = ''sentencias_y_autos s LEFT JOIN sentencias_jueces sj ON sj.ndetalle = s.ndetalle LEFT JOIN jueces j ON j.codigo = sj.codigo''"
definition kw_where :: string where "kw_where = ''WHERE ''"
definition kw_igual :: string where "kw_igual = '' = %s''"
definition kw_and :: string where "kw_and = '' AND ''"
definition kw_order :: string where "kw_order = ''ORDER BY s.ndetalle''"
definition kw_limit :: string where "kw_limit = ''LIMIT %s OFFSET %s''"
definition kw_fin :: string where "kw_fin = '';''"

definition es_blanco :: "char \<Rightarrow> bool" where
  "es_blanco c = (c = CHR '' '' \<or> c = CHR 0x0A)"

definition saltar_blancos :: "string \<Rightarrow> string" where
  "saltar_blancos s = dropWhile es_blanco s"

text \<open>The columns of the schema that a condition may name.\<close>

fun nombre_columna :: "columna \<Rightarrow> string" where
  "nombre_columna Codigo_organo = ''s.codigo_organo''"
| "nombre_columna Codigo_recurso = ''s.codigo_recurso''"
| "nombre_columna Especialidad_expe = ''s.especialidad_expe''"
| "nombre_columna Organo_detalle = ''s.organo_detalle''"
| "nombre_columna Nombre_juez = ''j.nombre_juez''"

definition leer_columna :: "columna \<Rightarrow> string \<Rightarrow> (columna \<times> string) option" where
  "leer_columna c s =
     (case quitar (nombre_columna c @ kw_igual) s of None \<Rightarrow> None | Some r \<Rightarrow> Some (c, r))"

definition leer_cond :: "string \<Rightarrow> (columna \<times> string) option" where
  "leer_cond s =
     (case leer_columna Codigo_organo s of Some x \<Rightarrow> Some x | None \<Rightarrow>
      case leer_columna Codigo_recurso s of Some x \<Rightarrow> Some x | None \<Rightarrow>
      case leer_columna Especialidad_expe s of Some x \<Rightarrow> Some x | None \<Rightarrow>
      case leer_columna Organo_detalle s of Some x \<Rightarrow> Some x | None \<Rightarrow>
      leer_columna Nombre_juez s)"

function leer_conds :: "string \<Rightarrow> (columna list \<times> string) option" where
  "leer_conds s =
     (case leer_cond s of
        None \<Rightarrow> None
      | Some (c, r) \<Rightarrow>
          (case quitar kw_and r of
             None \<Rightarrow> Some ([c], r)
           | Some r' \<Rightarrow>
               (case leer_conds r' of
                  None \<Rightarrow> None
                | Some (cs, r'') \<Rightarrow> Some (c # cs, r''))))"
  by pat_completeness auto
termination
proof (relation "measure length")
  show "wf (measure length)" by simp
next
  fix s :: string and x2 :: "columna \<times> string" and c r r'
  assume a: "leer_cond s = Some x2" "(c, r) = x2" "quitar kw_and r = Some r'"
  have q: "length t = length p + length u" if "quitar p t = Some u" for p t u
    using that by (induction p t rule: quitar.induct) (auto split: if_splits)
  have "length r \<le> length s"
    using a(1,2) q [of _ s r]
    by (auto simp: leer_cond_def leer_columna_def split: option.splits)
  moreover have "length r' < length r"
    using q [OF a(3)] by (simp add: kw_and_def)
  ultimately show "(r', s) \<in> measure length" by simp
qed

declare leer_conds.simps [simp del]

definition leer_where :: "string \<Rightarrow> (columna list \<times> string) option" where
  "leer_where s = (case quitar kw_where s of None \<Rightarrow> Some ([], s) | Some r \<Rightarrow> leer_conds r)"

definition leer_from :: "string \<Rightarrow> (bool \<times> string) option" where
  "leer_from s =
     (case quitar kw_inner s of
        Some r \<Rightarrow> Some (True, r)
      | None \<Rightarrow>
          (case quitar kw_left s of
             Some r \<Rightarrow> Some (False, r)
           | None \<Rightarrow> None))"

text \<open>\<^verbatim>\<open>FROM ... [WHERE ...]\<close>: the join, the columns of the conditions, and what follows.\<close>

definition leer_cuerpo :: "string \<Rightarrow> (bool \<times> columna list \<times> string) option" where
  "leer_cuerpo s =
     (case quitar kw_from (saltar_blancos s) of
        None \<Rightarrow> None
      | Some s1 \<Rightarrow>
          (case leer_from s1 of
             None \<Rightarrow> None
           | Some (con_join, s2) \<Rightarrow>
               (case leer_where (saltar_blancos s2) of
                  None \<Rightarrow> None
                | Some (cols, s3) \<Rightarrow> Some (con_join, cols, s3))))"

definition fin_de_consulta :: "string \<Rightarrow> bool" where
  "fin_de_consulta s =
     (case quitar kw_fin (saltar_blancos s) of None \<Rightarrow> False | Some r \<Rightarrow> saltar_blancos r = [])"

datatype consulta = Q_count bool "columna list" | Q_select bool "columna list"

definition leer_select :: "string \<Rightarrow> consulta option" where
  "leer_select s =
     (case leer_cuerpo s of
        None \<Rightarrow> None
      | Some (con_join, cols, s2) \<Rightarrow>
          (case quitar kw_order (saltar_blancos s2) of
             None \<Rightarrow> None
           | Some s3 \<Rightarrow>
               (case quitar kw_limit (saltar_blancos s3) of
                  None \<Rightarrow> None
                | Some s4 \<Rightarrow> if fin_de_consulta s4 then Some (Q_select con_join cols) else None)))"

definition leer_count :: "string \<Rightarrow> consulta option" where
  "leer_count s =
     (case leer_cuerpo s of
        None \<Rightarrow> None
      | Some (con_join, cols, s2) \<Rightarrow>
          if fin_de_consulta s2 then Some (Q_count con_join cols) else None)"

definition leer_consulta :: "string \<Rightarrow> consulta option" where
  "leer_consulta texto =
     (case quitar kw_count (saltar_blancos texto) of
        Some s \<Rightarrow> leer_count s
      | None \<Rightarrow>
          (case quitar kw_select (saltar_blancos texto) of
             Some s \<Rightarrow> leer_select s
           | None \<Rightarrow> None))"

text \<open>What the cursor holds after an execution: the one count, or the rows of the page.\<close>

datatype respuesta_pg = R_cuenta nat | R_filas "fila_pagina list"

definition pg_execute ::
  "(fila_pagina \<Rightarrow> nat) \<Rightarrow> database \<Rightarrow> string \<Rightarrow> param list \<Rightarrow> error + respuesta_pg" where
  "pg_execute des d texto ps =
     (case leer_consulta texto of
        None \<Rightarrow> Inl StoreFailure
      | Some (Q_count con_join cols) \<Rightarrow>
          (case ejecutar_count d con_join cols ps of
             Inl e \<Rightarrow> Inl e | Inr n \<Rightarrow> Inr (R_cuenta n))
      | Some (Q_select con_join cols) \<Rightarrow>
          (case ejecutar_select des d con_join cols ps of
             Inl e \<Rightarrow> Inl e | Inr filas \<Rightarrow> Inr (R_filas filas)))"

section \<open>The handlers\<close>

text \<open>
  What a request meets outside the handler: the tables, whether the store accepts a
  connection, which of the request's executions (numbered from 0) the store fails, the rank
  by which the store orders the rows that an ORDER BY leaves tied, and
  \<^verbatim>\<open>blob.generate_signed_url(version, expiration, method)\<close> of the object store, which
  takes the blob name, the version, the validity in seconds and the method, and gives
  \<open>None\<close> when the call raises.
\<close>

record entorno =
  datos :: database
  conecta :: bool
  consulta_falla :: "nat \<Rightarrow> bool"
  desempate :: "fila_pagina \<Rightarrow> nat"
  generate_signed_url :: "string \<Rightarrow> string \<Rightarrow> nat \<Rightarrow> string \<Rightarrow> string option"

text \<open>Connections opened by \<^verbatim>\<open>get_db_connection()\<close> and closed by \<^verbatim>\<open>conn.close()\<close>.\<close>

record conexiones =
  abiertas :: nat
  cerradas :: nat

record respuesta_busqueda =
  total_count :: nat
  items :: "(string \<times> string option) list"

text \<open>
  \<^verbatim>\<open>{row[0]: row[1] for row in filas}\<close>: a Python dictionary keeps the position of a key
  that is set again and takes the new value, which is \<open>AList.update\<close>.
\<close>

definition lista_ndetalle :: "(string \<times> string option) list \<Rightarrow> (string \<times> string option) list" where
  "lista_ndetalle filas = fold (\<lambda>row d. AList.update (fst row) (snd row) d) filas []"

text \<open>
  \<^verbatim>\<open>cur.execute(count_query, tuple(params))\<close> and \<^verbatim>\<open>cur.fetchone()[0]\<close>: the store is
  handed the text the handler built and the parameters it collected.
\<close>

definition cur_execute_count :: "entorno \<Rightarrow> nat \<Rightarrow> filtros \<Rightarrow> error + nat" where
  "cur_execute_count e n f =
     (if consulta_falla e n then Inl StoreFailure
      else case pg_execute (desempate e) (datos e) (count_query f) (params f) of
             Inl err \<Rightarrow> Inl err
           | Inr (R_cuenta k) \<Rightarrow> Inr k
           | Inr (R_filas filas) \<Rightarrow> Inl StoreFailure)"

text \<open>\<^verbatim>\<open>cur.execute(select_query, tuple(params_with_pagination))\<close> and \<^verbatim>\<open>cur.fetchall()\<close>.\<close>

definition cur_execute_select ::
  "entorno \<Rightarrow> nat \<Rightarrow> filtros \<Rightarrow> int \<Rightarrow> int \<Rightarrow> error + fila_pagina list" where
  "cur_execute_select e n f limit offset =
     (if consulta_falla e n then Inl StoreFailure
      else case pg_execute (desempate e) (datos e) (select_query f)
                  (params_with_pagination f limit offset) of
             Inl err \<Rightarrow> Inl err
           | Inr (R_cuenta k) \<Rightarrow> Inl StoreFailure
           | Inr (R_filas filas) \<Rightarrow> Inr filas)"

definition buscar_sentencias ::
  "entorno \<Rightarrow> filtros \<Rightarrow> int \<Rightarrow> int \<Rightarrow> (error + respuesta_busqueda) \<times> conexiones" where
  "buscar_sentencias e f limit offset =
     (if \<not> conecta e then (Inl StoreFailure, \<lparr>abiertas = 0, cerradas = 0\<rparr>)
      else case cur_execute_count e 0 f of
             Inl err \<Rightarrow> (Inl err, \<lparr>abiertas = 1, cerradas = 0\<rparr>)
           | Inr cuenta \<Rightarrow>
               (case cur_execute_select e 1 f limit offset of
                  Inl err \<Rightarrow> (Inl err, \<lparr>abiertas = 1, cerradas = 0\<rparr>)
                | Inr filas \<Rightarrow>
                    (Inr \<lparr>total_count = cuenta, items = lista_ndetalle filas\<rparr>,
                     \<lparr>abiertas = 1, cerradas = 1\<rparr>)))"

text \<open>A request that the store serves: it connects and no execution fails.\<close>

definition almacen_disponible :: "entorno \<Rightarrow> bool" where
  "almacen_disponible e = (conecta e \<and> (\<forall>n < 5. \<not> consulta_falla e n))"

text \<open>\<^verbatim>\<open>timedelta(minutes=m)\<close>, in seconds.\<close>

definition timedelta_minutes :: "nat \<Rightarrow> nat" where
  "timedelta_minutes m = 60 * m"

text \<open>\<^verbatim>\<open>SELECT url FROM sentencias_y_autos WHERE ndetalle = %s\<close> with the identifier bound.\<close>

definition seleccionar_url :: "database \<Rightarrow> string \<Rightarrow> string option list" where
  "seleccionar_url d nd = map url (filter (\<lambda>s. ndetalle s = nd) (sentencias_y_autos d))"

definition fetchone :: "'a list \<Rightarrow> 'a option" where
  "fetchone rows = (case rows of [] \<Rightarrow> None | r # rs \<Rightarrow> Some r)"

text \<open>
  \<^verbatim>\<open>generar_url\<close>: the identifier is bound to the statement, which fails as any other
  binding does on a NUL character; the connection is closed before the result is looked at;
  the answer \<^verbatim>\<open>{"url": signed_url}\<close> is its one value. A signer that raises gives
  \<open>None\<close>.
\<close>

definition generar_url :: "entorno \<Rightarrow> string \<Rightarrow> (error + string) \<times> conexiones" where
  "generar_url e nd =
     (if \<not> conecta e then (Inl StoreFailure, \<lparr>abiertas = 0, cerradas = 0\<rparr>)
      else if consulta_falla e 0 then (Inl StoreFailure, \<lparr>abiertas = 1, cerradas = 0\<rparr>)
      else if con_nul nd then (Inl ValueError, \<lparr>abiertas = 1, cerradas = 0\<rparr>)
      else (case fetchone (seleccionar_url (datos e) nd) of
              None \<Rightarrow> (Inl NotFound, \<lparr>abiertas = 1, cerradas = 1\<rparr>)
            | Some None \<Rightarrow> (Inl NotFound, \<lparr>abiertas = 1, cerradas = 1\<rparr>)
            | Some (Some blob_name) \<Rightarrow>
                (case generate_signed_url e blob_name ''v4'' (timedelta_minutes 15) ''GET'' of
                   None \<Rightarrow> (Inl StoreFailure, \<lparr>abiertas = 1, cerradas = 1\<rparr>)
                 | Some signed_url \<Rightarrow> (Inr signed_url, \<lparr>abiertas = 1, cerradas = 1\<rparr>))))"

text \<open>\<^verbatim>\<open>SELECT DISTINCT col FROM sentencias_y_autos WHERE col IS NOT NULL\<close>\<close>

definition valores_distintos :: "(sentencia \<Rightarrow> string option) \<Rightarrow> database \<Rightarrow> string list" where
  "valores_distintos col d = remdups (List.map_filter col (sentencias_y_autos d))"

text \<open>
  \<^verbatim>\<open>SELECT DISTINCT j.nombre_juez FROM jueces j JOIN sentencias_jueces sj ON sj.codigo = j.codigo
  JOIN sentencias_y_autos s ON s.ndetalle = sj.ndetalle WHERE j.nombre_juez IS NOT NULL\<close>
\<close>

definition jueces_con_sentencia :: "database \<Rightarrow> juez list" where
  "jueces_con_sentencia d =
     concat (map (\<lambda>j. concat (map (\<lambda>sj. map (\<lambda>s. j)
                                   (filter (\<lambda>s. ndetalle s = sj_ndetalle sj) (sentencias_y_autos d)))
                                 (filter (\<lambda>sj. sj_codigo sj = codigo j) (sentencias_jueces d))))
                 (jueces d))"

definition nombres_distintos :: "database \<Rightarrow> string list" where
  "nombres_distintos d = remdups (List.map_filter nombre_juez (jueces_con_sentencia d))"

record respuesta_filtros =
  r_codigo_organo :: "string list"
  r_codigo_recurso :: "string list"
  r_especialidad_expe :: "string list"
  r_organo_detalle :: "string list"
  r_nombre_juez :: "string list"

text \<open>\<^verbatim>\<open>obtener_filtros\<close>: five executions on one connection, then Python's \<^verbatim>\<open>sorted\<close>.\<close>

definition obtener_filtros :: "entorno \<Rightarrow> (error + respuesta_filtros) \<times> conexiones" where
  "obtener_filtros e =
     (if \<not> conecta e then (Inl StoreFailure, \<lparr>abiertas = 0, cerradas = 0\<rparr>)
      else if consulta_falla e 0 \<or> consulta_falla e 1 \<or> consulta_falla e 2 \<or>
              consulta_falla e 3 \<or> consulta_falla e 4
      then (Inl StoreFailure, \<lparr>abiertas = 1, cerradas = 0\<rparr>)
      else (Inr \<lparr>r_codigo_organo = sort (valores_distintos codigo_organo (datos e)),
                 r_codigo_recurso = sort (valores_distintos codigo_recurso (datos e)),
                 r_especialidad_expe = sort (valores_distintos especialidad_expe (datos e)),
                 r_organo_detalle = sort (valores_distintos organo_detalle (datos e)),
                 r_nombre_juez = sort (nombres_distintos (datos e))\<rparr>,
            \<lparr>abiertas = 1, cerradas = 1\<rparr>))"

section \<open>What the search is meant to return\<close>

text \<open>The equality predicates on the decision table that the request makes (non-empty values).\<close>

definition cumple_directos :: "filtros \<Rightarrow> sentencia \<Rightarrow> bool" where
  "cumple_directos f s =
     ((no_vacio (p_codigo_organo f) \<longrightarrow> codigo_organo s = p_codigo_organo f) \<and>
      (no_vacio (p_codigo_recurso f) \<longrightarrow> codigo_recurso s = p_codigo_recurso f) \<and>
      (no_vacio (p_especialidad_expe f) \<longrightarrow> especialidad_expe s = p_especialidad_expe f) \<and>
      (no_vacio (p_organo_detalle f) \<longrightarrow> organo_detalle s = p_organo_detalle f))"

definition cumple_juez :: "filtros \<Rightarrow> juez \<Rightarrow> bool" where
  "cumple_juez f j = (no_vacio (p_nombre_juez f) \<longrightarrow> nombre_juez j = p_nombre_juez f)"

text \<open>
  The decisions that satisfy the conjunction of the predicates over the join the request
  selects: with the inner join a decision needs an association to a judge of the judges
  table (who satisfies the judge predicate, when there is one); with the left join every
  decision of the table is a candidate.
\<close>

definition decisiones_que_cumplen :: "database \<Rightarrow> filtros \<Rightarrow> sentencia set" where
  "decisiones_que_cumplen d f =
     (if p_nombre_juez f \<noteq> None
      then {s \<in> set (sentencias_y_autos d). cumple_directos f s \<and>
              (\<exists>sj \<in> set (sentencias_jueces d). \<exists>j \<in> set (jueces d).
                 sj_ndetalle sj = ndetalle s \<and> codigo j = sj_codigo sj \<and> cumple_juez f j)}
      else {s \<in> set (sentencias_y_autos d). cumple_directos f s})"

text \<open>Some value that the request binds holds a NUL character.\<close>

definition filtros_con_nul :: "filtros \<Rightarrow> bool" where
  "filtros_con_nul f = list_ex (\<lambda>cv. con_nul (snd cv)) (condiciones f)"


text \<open>A list that holds exactly the members of a set, ascending, each once.\<close>

definition lista_ordenada_de :: "string list \<Rightarrow> string set \<Rightarrow> bool" where
  "lista_ordenada_de xs A = (set xs = A \<and> sorted xs \<and> distinct xs)"

section \<open>A small registry used for the concrete checks\<close>

definition bd_ejemplo :: database where
  "bd_ejemplo =
     \<lparr>sentencias_y_autos =
        [\<lparr>ndetalle = ''1'', codigo_organo = Some ''A'', codigo_recurso = Some ''R1'',
          especialidad_expe = Some ''CIVIL'', organo_detalle = None, url = Some ''a.pdf''\<rparr>,
         \<lparr>ndetalle = ''3'', codigo_organo = Some ''A'', codigo_recurso = None,
          especialidad_expe = Some ''PENAL'', organo_detalle = None, url = Some ''c.pdf''\<rparr>,
         \<lparr>ndetalle = ''2'', codigo_organo = Some ''B'', codigo_recurso = Some ''R1'',
          especialidad_expe = Some ''CIVIL'', organo_detalle = Some ''SALA'', url = None\<rparr>],
      sentencias_jueces =
        [\<lparr>sj_ndetalle = ''1'', sj_codigo = ''J1''\<rparr>, \<lparr>sj_ndetalle = ''1'', sj_codigo = ''J2''\<rparr>],
      jueces =
        [\<lparr>codigo = ''J1'', nombre_juez = Some ''LUIS''\<rparr>, \<lparr>codigo = ''J2'', nombre_juez = Some ''ANA''\<rparr>,
         \<lparr>codigo = ''J3'', nombre_juez = Some ''EVA''\<rparr>]\<rparr>"

definition entorno_ejemplo :: entorno where
  "entorno_ejemplo =
     \<lparr>datos = bd_ejemplo, conecta = True, consulta_falla = (\<lambda>n. False),
      desempate = (\<lambda>r. 0),
      generate_signed_url = (\<lambda>blob version expiration method.
         Some (''https://storage/'' @ blob @ ''?'' @ version @ ''&'' @ method))\<rparr>"

text \<open>The example store with its first execution failing.\<close>

definition entorno_caido :: entorno where
  "entorno_caido = entorno_ejemplo\<lparr>consulta_falla := (\<lambda>n. n = 0)\<rparr>"




text \<open>The example store with its execution number \<open>n\<close> failing.\<close>

definition entorno_falla :: "nat \<Rightarrow> entorno" where
  "entorno_falla n = entorno_ejemplo\<lparr>consulta_falla := (\<lambda>k. k = n)\<rparr>"

section \<open>Properties of the query text\<close>

lemma si_presente_cols:
  "no_vacio v = no_vacio w \<Longrightarrow> map fst (si_presente c v) = map fst (si_presente c w)"
  by (cases v; cases w) (simp_all add: no_vacio_def)

lemma filtros_where_cols: "filtros_where f = map cond_sql (map fst (condiciones f))"
  by (simp add: filtros_where_def)

lemma mismos_presentes_cols:
  "mismos_presentes f g \<Longrightarrow> map fst (condiciones f) = map fst (condiciones g)"
proof -
  assume h: "mismos_presentes f g"
  have 1: "map fst (si_presente Codigo_organo (p_codigo_organo f)) =
           map fst (si_presente Codigo_organo (p_codigo_organo g))"
    using h by (intro si_presente_cols) (simp add: mismos_presentes_def)
  have 2: "map fst (si_presente Codigo_recurso (p_codigo_recurso f)) =
           map fst (si_presente Codigo_recurso (p_codigo_recurso g))"
    using h by (intro si_presente_cols) (simp add: mismos_presentes_def)
  have 3: "map fst (si_presente Especialidad_expe (p_especialidad_expe f)) =
           map fst (si_presente Especialidad_expe (p_especialidad_expe g))"
    using h by (intro si_presente_cols) (simp add: mismos_presentes_def)
  have 4: "map fst (si_presente Organo_detalle (p_organo_detalle f)) =
           map fst (si_presente Organo_detalle (p_organo_detalle g))"
    using h by (intro si_presente_cols) (simp add: mismos_presentes_def)
  have 5: "map fst (si_presente Nombre_juez (p_nombre_juez f)) =
           map fst (si_presente Nombre_juez (p_nombre_juez g))"
    using h by (intro si_presente_cols) (simp add: mismos_presentes_def)
  show ?thesis
    unfolding condiciones_def map_append 1 2 3 4 5 ..
qed

lemma mismos_presentes_where: "mismos_presentes f g \<Longrightarrow> where_sql f = where_sql g"
  by (simp add: where_sql_def filtros_where_cols mismos_presentes_cols)

lemma mismos_presentes_from: "mismos_presentes f g \<Longrightarrow> from_clause f = from_clause g"
  by (simp add: from_clause_def necesita_join_jueces_def mismos_presentes_def)

text \<open>
  C8 (as amended). The text of both queries is the same for two requests that agree,
  filter by filter, on the outcome of the source's truth test (supplied and not empty) and
  on whether \<^verbatim>\<open>nombre_juez\<close> is supplied at all; the values are only bound, as
  parameters in the order of their conditions, with the limit and the offset last.
\<close>

theorem query_text_independent_of_values:
  "mismos_presentes f g \<Longrightarrow>
     count_query f = count_query g \<and> select_query f = select_query g \<and>
     length (params f) = length (filtros_where f) \<and>
     params f = map P_str (map snd (condiciones f)) \<and>
     filtros_where f = map cond_sql (map fst (condiciones f)) \<and>
     params_with_pagination f limit offset = params f @ [P_int limit, P_int offset]"
  by (simp add: count_query_def select_query_def mismos_presentes_where mismos_presentes_from
      params_def filtros_where_def params_with_pagination_def)

theorem query_text_independent_of_values_witness:
  "mismos_presentes (sin_filtros\<lparr>p_codigo_organo := Some ''A'', p_nombre_juez := Some ''X''\<rparr>)
       (sin_filtros\<lparr>p_codigo_organo := Some ''B'', p_nombre_juez := Some ''Y''\<rparr>) \<and>
   count_query (sin_filtros\<lparr>p_codigo_organo := Some ''A'', p_nombre_juez := Some ''X''\<rparr>) =
   count_query (sin_filtros\<lparr>p_codigo_organo := Some ''B'', p_nombre_juez := Some ''Y''\<rparr>) \<and>
   select_query (sin_filtros\<lparr>p_codigo_organo := Some ''A'', p_nombre_juez := Some ''X''\<rparr>) =
   select_query (sin_filtros\<lparr>p_codigo_organo := Some ''B'', p_nombre_juez := Some ''Y''\<rparr>)"
proof -
  have h: "mismos_presentes (sin_filtros\<lparr>p_codigo_organo := Some ''A'', p_nombre_juez := Some ''X''\<rparr>)
       (sin_filtros\<lparr>p_codigo_organo := Some ''B'', p_nombre_juez := Some ''Y''\<rparr>)"
    by (simp add: mismos_presentes_def sin_filtros_def no_vacio_def)
  from query_text_independent_of_values [OF h] h show ?thesis by simp
qed

text \<open>
  The claim as written fails whichever single test "present" stands for. Read as
  "supplied": an empty and a non-empty \<^verbatim>\<open>codigo_organo\<close> give different texts. Read as
  "supplied and not empty": an absent and an empty \<^verbatim>\<open>nombre_juez\<close>, beside the same
  non-empty filter carrying different values, give different texts.
\<close>

theorem query_text_presence_counterexample:
  "count_query (sin_filtros\<lparr>p_codigo_organo := Some ''''\<rparr>) \<noteq>
   count_query (sin_filtros\<lparr>p_codigo_organo := Some ''A''\<rparr>) \<and>
   count_query (sin_filtros\<lparr>p_codigo_organo := Some ''A''\<rparr>) \<noteq>
   count_query (sin_filtros\<lparr>p_codigo_organo := Some ''B'', p_nombre_juez := Some ''''\<rparr>)"
  by (simp add: count_query_def from_clause_def where_sql_def filtros_where_def condiciones_def
      necesita_join_jueces_def sin_filtros_def nl8_def)

section \<open>The rows of the two joins and the conditions on them\<close>

lemma in_inner_join:
  "(s, a, b) \<in> set (inner_join d) \<longleftrightarrow>
     s \<in> set (sentencias_y_autos d) \<and>
     (\<exists>sj \<in> set (sentencias_jueces d). \<exists>j \<in> set (jueces d).
        a = Some sj \<and> b = Some j \<and> sj_ndetalle sj = ndetalle s \<and> codigo j = sj_codigo sj)"
  by (auto simp: inner_join_def asociaciones_de_def jueces_de_def)

lemma left_jueces_fst: "r \<in> set (left_jueces d s sj) \<Longrightarrow> fst r = s"
  by (auto simp: left_jueces_def split: if_splits)

lemma left_jueces_ex: "\<exists>r. r \<in> set (left_jueces d s sj)"
  by (cases "jueces_de d sj") (auto simp: left_jueces_def)

lemma left_filas_fst: "r \<in> set (left_filas d s) \<Longrightarrow> fst r = s"
  by (auto simp: left_filas_def dest: left_jueces_fst split: if_splits)

lemma left_filas_ex: "\<exists>r. r \<in> set (left_filas d s)"
proof (cases "asociaciones_de d s")
  case Nil
  then show ?thesis by (simp add: left_filas_def)
next
  case (Cons sj sjs)
  obtain r where "r \<in> set (left_jueces d s sj)"
    using left_jueces_ex by blast
  then have "r \<in> set (left_filas d s)"
    using Cons by (simp add: left_filas_def)
  then show ?thesis ..
qed

lemma left_join_fst: "fst ` set (left_join d) = set (sentencias_y_autos d)"
proof
  show "fst ` set (left_join d) \<subseteq> set (sentencias_y_autos d)"
    by (auto simp: left_join_def dest: left_filas_fst)
  show "set (sentencias_y_autos d) \<subseteq> fst ` set (left_join d)"
  proof
    fix s assume s: "s \<in> set (sentencias_y_autos d)"
    obtain r where r: "r \<in> set (left_filas d s)"
      using left_filas_ex by blast
    then have "r \<in> set (left_join d)"
      using s by (auto simp: left_join_def)
    moreover have "fst r = s" using r by (rule left_filas_fst)
    ultimately show "s \<in> fst ` set (left_join d)" by force
  qed
qed

lemma cumple_si_presente:
  "cumple (si_presente c v) r = (no_vacio v \<longrightarrow> valor_columna c r = v)"
  by (cases v) (auto simp: cumple_def no_vacio_def)

lemma cumple_append: "cumple (xs @ ys) r = (cumple xs r \<and> cumple ys r)"
  by (simp add: cumple_def)

lemma cumple_condiciones:
  "cumple (condiciones f) (s, a, b) =
     (cumple_directos f s \<and>
      (no_vacio (p_nombre_juez f) \<longrightarrow> (case b of None \<Rightarrow> None | Some j \<Rightarrow> nombre_juez j) = p_nombre_juez f))"
  by (simp add: condiciones_def cumple_append cumple_si_presente cumple_directos_def)

lemma filas_que_cumplen:
  "fst ` set (filter (cumple (condiciones f)) (filas_from d (necesita_join_jueces f))) =
   decisiones_que_cumplen d f"
proof (cases "p_nombre_juez f")
  case None
  then have nv: "\<not> no_vacio (p_nombre_juez f)" by (simp add: no_vacio_def)
  have c: "cumple (condiciones f) r = cumple_directos f (fst r)" for r
    using nv by (cases r) (simp add: cumple_condiciones)
  have "fst ` {r \<in> set (left_join d). cumple_directos f (fst r)} =
        {s \<in> fst ` set (left_join d). cumple_directos f s}"
    by force
  then show ?thesis
    using None
    by (simp add: filas_from_def necesita_join_jueces_def decisiones_que_cumplen_def
        c left_join_fst)
next
  case (Some v)
  have c: "cumple (condiciones f) (s, a, Some j) = (cumple_directos f s \<and> cumple_juez f j)" for s a j
    by (simp add: cumple_condiciones cumple_juez_def)
  have "fst ` set (filter (cumple (condiciones f)) (inner_join d)) = decisiones_que_cumplen d f"
  proof (intro set_eqI iffI)
    fix s assume "s \<in> fst ` set (filter (cumple (condiciones f)) (inner_join d))"
    then obtain a b where m: "(s, a, b) \<in> set (inner_join d)"
      and k: "cumple (condiciones f) (s, a, b)" by force
    from m obtain sj j where s: "s \<in> set (sentencias_y_autos d)"
      and sj: "sj \<in> set (sentencias_jueces d)" and j: "j \<in> set (jueces d)"
      and e: "a = Some sj" "b = Some j" "sj_ndetalle sj = ndetalle s" "codigo j = sj_codigo sj"
      unfolding in_inner_join by blast
    from k e have "cumple_directos f s" "cumple_juez f j" by (simp_all add: c)
    with s sj j e Some show "s \<in> decisiones_que_cumplen d f"
      unfolding decisiones_que_cumplen_def by auto
  next
    fix s assume "s \<in> decisiones_que_cumplen d f"
    with Some obtain sj j where s: "s \<in> set (sentencias_y_autos d)" "cumple_directos f s"
      and sj: "sj \<in> set (sentencias_jueces d)" and j: "j \<in> set (jueces d)"
      and e: "sj_ndetalle sj = ndetalle s" "codigo j = sj_codigo sj" "cumple_juez f j"
      unfolding decisiones_que_cumplen_def by auto
    have "(s, Some sj, Some j) \<in> set (inner_join d)"
      unfolding in_inner_join using s sj j e by blast
    moreover have "cumple (condiciones f) (s, Some sj, Some j)"
      using s e by (simp add: c)
    ultimately have "(s, Some sj, Some j) \<in> set (filter (cumple (condiciones f)) (inner_join d))"
      by simp
    then show "s \<in> fst ` set (filter (cumple (condiciones f)) (inner_join d))"
      by force
  qed
  then show ?thesis
    using Some by (simp add: filas_from_def necesita_join_jueces_def)
qed

section \<open>The store reads the statements the handler builds\<close>

lemma quitar_append: "quitar p (p @ s) = Some s"
  by (induction p) auto

lemma saltar_nl8: "saltar_blancos (nl8 @ s) = saltar_blancos s"
  by (simp add: saltar_blancos_def nl8_def es_blanco_def)

lemma saltar_idem: "saltar_blancos (saltar_blancos s) = saltar_blancos s"
  by (simp add: saltar_blancos_def dropWhile_idem)

lemma saltar_palabra:
  "saltar_blancos (kw_count @ s) = kw_count @ s"
  "saltar_blancos (kw_select @ s) = kw_select @ s"
  "saltar_blancos (kw_from @ s) = kw_from @ s"
  "saltar_blancos (kw_where @ s) = kw_where @ s"
  "saltar_blancos (kw_order @ s) = kw_order @ s"
  "saltar_blancos (kw_limit @ s) = kw_limit @ s"
  "saltar_blancos (kw_fin @ s) = kw_fin @ s"
  by (simp_all add: saltar_blancos_def es_blanco_def kw_count_def kw_select_def kw_from_def
      kw_where_def kw_order_def kw_limit_def kw_fin_def)

lemma quitar_otra_palabra:
  "quitar kw_and (kw_fin @ s) = None"
  "quitar kw_and (nl8 @ s) = None"
  "quitar kw_where (kw_fin @ s) = None"
  "quitar kw_where (kw_order @ s) = None"
  "quitar kw_count (kw_select @ s) = None"
  by (simp_all add: kw_and_def kw_fin_def kw_where_def kw_order_def kw_count_def kw_select_def
      nl8_def)

lemma cola_en_blanco: "saltar_blancos (CHR 0x0A # ''    '') = []"
  by (simp add: saltar_blancos_def es_blanco_def)

lemma count_query_palabras:
  "count_query f =
     nl8 @ kw_count @ nl8 @ kw_from @ from_clause f @ nl8 @ where_sql f @ kw_fin @ CHR 0x0A # ''    ''"
  by (simp add: count_query_def kw_count_def kw_from_def kw_fin_def)

lemma select_query_palabras:
  "select_query f =
     nl8 @ kw_select @ nl8 @ kw_from @ from_clause f @ nl8 @ where_sql f @
     nl8 @ kw_order @ nl8 @ kw_limit @ kw_fin @ CHR 0x0A # ''    ''"
  by (simp add: select_query_def kw_select_def kw_from_def kw_order_def kw_limit_def kw_fin_def)

lemma from_clause_palabras: "from_clause f = (if necesita_join_jueces f then kw_inner else kw_left)"
  by (simp add: from_clause_def kw_inner_def kw_left_def)

lemma quitar_inner_left: "quitar kw_inner (kw_left @ t) = None"
  by (simp add: kw_inner_def kw_left_def)

lemma leer_from_clause: "leer_from (from_clause f @ t) = Some (necesita_join_jueces f, t)"
  by (simp add: from_clause_palabras leer_from_def quitar_append quitar_inner_left)

lemma leer_cond_cond_sql: "leer_cond (cond_sql c @ r) = Some (c, r)"
  by (cases c) (simp_all add: leer_cond_def leer_columna_def kw_igual_def)

lemma leer_conds_join:
  "cols \<noteq> [] \<Longrightarrow> quitar kw_and r = None \<Longrightarrow>
   leer_conds (join_str kw_and (map cond_sql cols) @ r) = Some (cols, r)"
proof (induction cols)
  case Nil
  then show ?case by simp
next
  case (Cons c cs)
  show ?case
  proof (cases cs)
    case Nil
    have "leer_conds (cond_sql c @ r) = Some ([c], r)"
      by (subst leer_conds.simps) (simp add: leer_cond_cond_sql Cons.prems(2))
    with Nil show ?thesis by simp
  next
    case (Cons c' cs')
    let ?X = "join_str kw_and (map cond_sql cs)"
    have ih: "leer_conds (?X @ r) = Some (cs, r)"
      using Cons.IH Cons.prems(2) \<open>cs = c' # cs'\<close> by simp
    have "leer_conds (cond_sql c @ kw_and @ ?X @ r) = Some (c # cs, r)"
      by (subst leer_conds.simps) (simp add: leer_cond_cond_sql quitar_append ih)
    moreover have "join_str kw_and (map cond_sql (c # cs)) @ r = cond_sql c @ kw_and @ ?X @ r"
      using \<open>cs = c' # cs'\<close> by simp
    ultimately show ?thesis by simp
  qed
qed

lemma where_sql_vacio: "condiciones f = [] \<Longrightarrow> where_sql f = []"
  by (simp add: where_sql_def filtros_where_def)

lemma where_sql_lleno:
  "condiciones f \<noteq> [] \<Longrightarrow>
   where_sql f = kw_where @ join_str kw_and (map cond_sql (map fst (condiciones f)))"
  by (simp add: where_sql_def filtros_where_def o_def kw_where_def kw_and_def)

lemma leer_cuerpo_texto:
  assumes "quitar kw_and r = None" and "quitar kw_where (saltar_blancos r) = None"
  shows "\<exists>r'. leer_cuerpo (nl8 @ kw_from @ from_clause f @ nl8 @ where_sql f @ r) =
               Some (necesita_join_jueces f, map fst (condiciones f), r') \<and>
             saltar_blancos r' = saltar_blancos r"
proof -
  have 2: "leer_cuerpo (nl8 @ kw_from @ from_clause f @ t) =
       (case leer_where (saltar_blancos t) of
          None \<Rightarrow> None
        | Some (cols, s3) \<Rightarrow> Some (necesita_join_jueces f, cols, s3))" for t
    by (simp add: leer_cuerpo_def saltar_nl8 saltar_palabra quitar_append leer_from_clause)
  show ?thesis
  proof (cases "condiciones f = []")
    case True
    have "leer_where (saltar_blancos (nl8 @ where_sql f @ r)) = Some ([], saltar_blancos r)"
      using assms(2) by (simp add: where_sql_vacio [OF True] saltar_nl8 leer_where_def)
    then show ?thesis
      unfolding 2 using True by (simp add: saltar_idem)
  next
    case False
    let ?J = "join_str kw_and (map cond_sql (map fst (condiciones f)))"
    have "saltar_blancos (nl8 @ where_sql f @ r) = kw_where @ ?J @ r"
      by (simp add: where_sql_lleno [OF False] saltar_nl8 saltar_palabra)
    moreover have "leer_where (kw_where @ ?J @ r) = leer_conds (?J @ r)"
      by (simp add: leer_where_def quitar_append)
    moreover have "leer_conds (?J @ r) = Some (map fst (condiciones f), r)"
      using False assms(1) by (intro leer_conds_join) simp_all
    ultimately show ?thesis
      unfolding 2 by simp
  qed
qed

lemma fin_de_consulta_cong:
  "saltar_blancos a = saltar_blancos b \<Longrightarrow> fin_de_consulta a = fin_de_consulta b"
  by (simp add: fin_de_consulta_def)

lemma fin_de_consulta_cola: "fin_de_consulta (kw_fin @ CHR 0x0A # ''    '')"
  by (simp add: fin_de_consulta_def saltar_palabra quitar_append cola_en_blanco)

lemma leer_count_query:
  "leer_consulta (count_query f) = Some (Q_count (necesita_join_jueces f) (map fst (condiciones f)))"
proof -
  let ?r = "kw_fin @ CHR 0x0A # ''    ''"
  have a: "quitar kw_and ?r = None" by (rule quitar_otra_palabra)
  have b: "quitar kw_where (saltar_blancos ?r) = None"
    by (simp add: saltar_palabra quitar_otra_palabra)
  from leer_cuerpo_texto [OF a b, of f] obtain r' where
    c: "leer_cuerpo (nl8 @ kw_from @ from_clause f @ nl8 @ where_sql f @ ?r) =
               Some (necesita_join_jueces f, map fst (condiciones f), r')"
    and s: "saltar_blancos r' = saltar_blancos ?r" by blast
  have f: "fin_de_consulta r'"
    unfolding fin_de_consulta_cong [OF s] by (rule fin_de_consulta_cola)
  show ?thesis
    unfolding count_query_palabras
    by (simp add: leer_consulta_def leer_count_def saltar_nl8 saltar_palabra quitar_append c f)
qed

lemma leer_select_query:
  "leer_consulta (select_query f) = Some (Q_select (necesita_join_jueces f) (map fst (condiciones f)))"
proof -
  let ?r = "nl8 @ kw_order @ nl8 @ kw_limit @ kw_fin @ CHR 0x0A # ''    ''"
  have a: "quitar kw_and ?r = None" by (rule quitar_otra_palabra)
  have b: "quitar kw_where (saltar_blancos ?r) = None"
    by (simp add: saltar_nl8 saltar_palabra quitar_otra_palabra)
  from leer_cuerpo_texto [OF a b, of f] obtain r' where
    c: "leer_cuerpo (nl8 @ kw_from @ from_clause f @ nl8 @ where_sql f @ ?r) =
               Some (necesita_join_jueces f, map fst (condiciones f), r')"
    and s: "saltar_blancos r' = saltar_blancos ?r" by blast
  have o: "quitar kw_order (saltar_blancos r') = Some (nl8 @ kw_limit @ kw_fin @ CHR 0x0A # ''    '')"
    unfolding s by (simp add: saltar_nl8 saltar_palabra quitar_append)
  show ?thesis
    unfolding select_query_palabras
    by (simp add: leer_consulta_def leer_select_def saltar_nl8 saltar_palabra quitar_append
        quitar_otra_palabra c o fin_de_consulta_cola)
qed

lemma ligar_condiciones:
  "ligar (map fst cs) (map (\<lambda>cv. P_str (snd cv)) cs) =
     (if list_ex (\<lambda>cv. con_nul (snd cv)) cs then Inl ValueError else Inr cs)"
  by (induction cs) auto

lemma ejecutar_count_condiciones:
  "ejecutar_count d (necesita_join_jueces f) (map fst (condiciones f)) (params f) =
     (if filtros_con_nul f then Inl ValueError
      else Inr (card (ndetalle ` decisiones_que_cumplen d f)))"
proof -
  have "set (map (\<lambda>r. ndetalle (fst r))
          (filter (cumple (condiciones f)) (filas_from d (necesita_join_jueces f)))) =
        ndetalle ` decisiones_que_cumplen d f"
    unfolding filas_que_cumplen [symmetric] set_map image_image ..
  then show ?thesis
    by (simp add: ejecutar_count_def params_def ligar_condiciones filtros_con_nul_def
        length_remdups_card_conv del: set_map set_filter)
qed

lemma set_filas_select:
  "set (filas_select des d (necesita_join_jueces f) (condiciones f)) =
     (\<lambda>s. (ndetalle s, url s)) ` decisiones_que_cumplen d f"
proof -
  have "set (map (\<lambda>r. (ndetalle (fst r), url (fst r)))
          (filter (cumple (condiciones f)) (filas_from d (necesita_join_jueces f)))) =
        (\<lambda>s. (ndetalle s, url s)) ` decisiones_que_cumplen d f"
    unfolding filas_que_cumplen [symmetric] set_map image_image ..
  then show ?thesis
    by (simp add: filas_select_def del: set_map set_filter)
qed



lemma fst_filas_select:
  "fst ` set (filas_select des d (necesita_join_jueces f) (condiciones f)) =
     ndetalle ` decisiones_que_cumplen d f"
  by (simp add: set_filas_select image_image)

lemma ejecutar_select_condiciones:
  "ejecutar_select des d (necesita_join_jueces f) (map fst (condiciones f))
       (params_with_pagination f l k) =
     (if filtros_con_nul f then Inl ValueError
      else if limite_valido l \<and> limite_valido k
      then Inr (take (nat l) (drop (nat k)
                 (filas_select des d (necesita_join_jueces f) (condiciones f))))
      else Inl StoreFailure)"
  by (simp add: ejecutar_select_def params_with_pagination_def params_def ligar_condiciones
      filtros_con_nul_def)

lemma pg_execute_count_query:
  "pg_execute des d (count_query f) (params f) =
     (if filtros_con_nul f then Inl ValueError
      else Inr (R_cuenta (card (ndetalle ` decisiones_que_cumplen d f))))"
  by (simp add: pg_execute_def leer_count_query ejecutar_count_condiciones)

lemma pg_execute_select_query:
  "pg_execute des d (select_query f) (params_with_pagination f l k) =
     (if filtros_con_nul f then Inl ValueError
      else if limite_valido l \<and> limite_valido k
      then Inr (R_filas (take (nat l) (drop (nat k)
                 (filas_select des d (necesita_join_jueces f) (condiciones f)))))
      else Inl StoreFailure)"
  by (simp add: pg_execute_def leer_select_query ejecutar_select_condiciones)

lemma cur_execute_count_eq:
  "cur_execute_count e n f =
     (if consulta_falla e n then Inl StoreFailure
      else if filtros_con_nul f then Inl ValueError
      else Inr (card (ndetalle ` decisiones_que_cumplen (datos e) f)))"
  by (simp add: cur_execute_count_def pg_execute_count_query)

lemma cur_execute_select_eq:
  "cur_execute_select e n f l k =
     (if consulta_falla e n then Inl StoreFailure
      else if filtros_con_nul f then Inl ValueError
      else if limite_valido l \<and> limite_valido k
      then Inr (take (nat l) (drop (nat k)
             (filas_select (desempate e) (datos e) (necesita_join_jueces f) (condiciones f))))
      else Inl StoreFailure)"
  by (simp add: cur_execute_select_def pg_execute_select_query)

lemma buscar_sentencias_eq:
  "buscar_sentencias e f l k =
     (if \<not> conecta e then (Inl StoreFailure, \<lparr>abiertas = 0, cerradas = 0\<rparr>)
      else if consulta_falla e 0 then (Inl StoreFailure, \<lparr>abiertas = 1, cerradas = 0\<rparr>)
      else if filtros_con_nul f then (Inl ValueError, \<lparr>abiertas = 1, cerradas = 0\<rparr>)
      else if consulta_falla e 1 \<or> \<not> limite_valido l \<or> \<not> limite_valido k
      then (Inl StoreFailure, \<lparr>abiertas = 1, cerradas = 0\<rparr>)
      else (Inr \<lparr>total_count = card (ndetalle ` decisiones_que_cumplen (datos e) f),
                 items = lista_ndetalle (take (nat l) (drop (nat k)
                           (filas_select (desempate e) (datos e) (necesita_join_jueces f)
                              (condiciones f))))\<rparr>,
            \<lparr>abiertas = 1, cerradas = 1\<rparr>))"
  by (simp add: buscar_sentencias_def cur_execute_count_eq cur_execute_select_eq)

lemma buscar_sentencias_Inr:
  assumes "buscar_sentencias e f l k = (Inr r, c)"
  shows "conecta e" "\<not> consulta_falla e 0" "\<not> consulta_falla e 1" "limite_valido l" "limite_valido k"
    "total_count r = card (ndetalle ` decisiones_que_cumplen (datos e) f)"
    "items r = lista_ndetalle (take (nat l) (drop (nat k)
                 (filas_select (desempate e) (datos e) (necesita_join_jueces f) (condiciones f))))"
    "c = \<lparr>abiertas = 1, cerradas = 1\<rparr>" "\<not> filtros_con_nul f"
  using assms by (auto simp: buscar_sentencias_eq split: if_splits)


section \<open>The dictionary of the page\<close>

lemma update_ausente: "k \<notin> fst ` set al \<Longrightarrow> AList.update k v al = al @ [(k, v)]"
  by (induction al) auto

lemma fold_update_keys:
  "fst ` set (fold (\<lambda>row d. AList.update (fst row) (snd row) d) rows acc) =
     fst ` set rows \<union> fst ` set acc"
  by (induction rows arbitrary: acc) (auto simp: dom_update)


lemma fold_update_distinct:
  "distinct (map fst (acc @ rows)) \<Longrightarrow>
   fold (\<lambda>row d. AList.update (fst row) (snd row) d) rows acc = acc @ rows"
proof (induction rows arbitrary: acc)
  case Nil
  then show ?case by simp
next
  case (Cons x xs)
  have "fst x \<notin> fst ` set acc" using Cons.prems by auto
  then have u: "AList.update (fst x) (snd x) acc = acc @ [x]"
    by (simp add: update_ausente)
  have "distinct (map fst ((acc @ [x]) @ xs))" using Cons.prems by simp
  from Cons.IH [OF this] u show ?case by simp
qed

lemma lista_ndetalle_keys: "fst ` set (lista_ndetalle rows) = fst ` set rows"
  by (simp add: lista_ndetalle_def fold_update_keys)


lemma lista_ndetalle_distinct: "distinct (map fst rows) \<Longrightarrow> lista_ndetalle rows = rows"
  using fold_update_distinct [of "[]" rows] by (simp add: lista_ndetalle_def)

lemma almacen_disponible_01:
  "almacen_disponible e \<Longrightarrow> conecta e \<and> \<not> consulta_falla e 0 \<and> \<not> consulta_falla e 1"
  by (simp add: almacen_disponible_def)







lemma cumple_directos_juez [simp]:
  "cumple_directos (f\<lparr>p_nombre_juez := v\<rparr>) s = cumple_directos f s"
  by (simp add: cumple_directos_def)

lemma condiciones_vacio:
  "condiciones (f\<lparr>p_codigo_organo := Some ''''\<rparr>) = condiciones (f\<lparr>p_codigo_organo := None\<rparr>)"
  "condiciones (f\<lparr>p_codigo_recurso := Some ''''\<rparr>) = condiciones (f\<lparr>p_codigo_recurso := None\<rparr>)"
  "condiciones (f\<lparr>p_especialidad_expe := Some ''''\<rparr>) = condiciones (f\<lparr>p_especialidad_expe := None\<rparr>)"
  "condiciones (f\<lparr>p_organo_detalle := Some ''''\<rparr>) = condiciones (f\<lparr>p_organo_detalle := None\<rparr>)"
  "condiciones (f\<lparr>p_nombre_juez := Some ''''\<rparr>) = condiciones (f\<lparr>p_nombre_juez := None\<rparr>)"
  by (simp_all add: condiciones_def)

lemma decisiones_juez_vacio:
  "decisiones_que_cumplen d (f\<lparr>p_nombre_juez := Some ''''\<rparr>) =
     {s \<in> set (sentencias_y_autos d). cumple_directos f s \<and>
        (\<exists>sj \<in> set (sentencias_jueces d). \<exists>j \<in> set (jueces d).
           sj_ndetalle sj = ndetalle s \<and> codigo j = sj_codigo sj)}"
  by (simp add: decisiones_que_cumplen_def cumple_juez_def no_vacio_def)

lemma decisiones_sin_juez:
  "p_nombre_juez f = None \<Longrightarrow>
   decisiones_que_cumplen d f = {s \<in> set (sentencias_y_autos d). cumple_directos f s}"
  by (simp add: decisiones_que_cumplen_def)

lemma items_keys:
  assumes "buscar_sentencias e f l k = (Inr r, c)"
  shows "fst ` set (items r) \<subseteq> ndetalle ` decisiones_que_cumplen (datos e) f"
proof -
  let ?todas = "filas_select (desempate e) (datos e) (necesita_join_jueces f) (condiciones f)"
  have "fst ` set (items r) = fst ` set (take (nat l) (drop (nat k) ?todas))"
    unfolding buscar_sentencias_Inr(7) [OF assms] by (rule lista_ndetalle_keys)
  also have "\<dots> \<subseteq> fst ` set ?todas"
    by (intro image_mono) (meson in_set_dropD in_set_takeD subsetI)
  finally show ?thesis by (simp add: fst_filas_select)
qed

section \<open>The search handler\<close>

lemma almacen_disponible_ejemplo: "almacen_disponible entorno_ejemplo"
  by (simp add: almacen_disponible_def entorno_ejemplo_def)

lemma datos_ejemplo: "datos entorno_ejemplo = bd_ejemplo"
  by (simp add: entorno_ejemplo_def)

lemma sin_nul_ejemplos:
  "\<not> filtros_con_nul sin_filtros"
  "\<not> filtros_con_nul (sin_filtros\<lparr>p_codigo_organo := Some ''A''\<rparr>)"
  "\<not> filtros_con_nul (sin_filtros\<lparr>p_nombre_juez := Some ''X''\<rparr>)"
  by (simp_all add: filtros_con_nul_def condiciones_def sin_filtros_def con_nul_def)

lemma limites_ejemplo: "limite_valido 0" "limite_valido 1" "limite_valido 2" "limite_valido 10"
  by (simp_all add: limite_valido_def)












text \<open>
  C4. The claim does not hold of the code at \<^verbatim>\<open>nombre_juez=""\<close>. No condition on the judge
  is appended (the WHERE clause is empty), so no filtering by judge name takes place; yet the
  join is chosen by \<^verbatim>\<open>nombre_juez is not None\<close> and the inner join chain is used. On the
  example registry the decisions without a judge association, which the request without
  \<open>nombre_juez\<close> returns, are then left out of the count and of the page.
\<close>

theorem join_choice_at_empty_judge_name:
  "condiciones (sin_filtros\<lparr>p_nombre_juez := Some ''''\<rparr>) = [] \<and>
   where_sql (sin_filtros\<lparr>p_nombre_juez := Some ''''\<rparr>) = [] \<and>
   from_clause (sin_filtros\<lparr>p_nombre_juez := Some ''''\<rparr>) =
     ''sentencias_y_autos s JOIN sentencias_jueces sj ON sj.ndetalle = s.ndetalle JOIN jueces j ON j.codigo = sj.codigo'' \<and>
   buscar_sentencias entorno_ejemplo (sin_filtros\<lparr>p_nombre_juez := Some ''''\<rparr>) 10 0 =
     (Inr \<lparr>total_count = 1, items = [(''1'', Some ''a.pdf'')]\<rparr>, \<lparr>abiertas = 1, cerradas = 1\<rparr>) \<and>
   buscar_sentencias entorno_ejemplo sin_filtros 10 0 =
     (Inr \<lparr>total_count = 3, items = [(''1'', Some ''a.pdf''), (''2'', None), (''3'', Some ''c.pdf'')]\<rparr>,
      \<lparr>abiertas = 1, cerradas = 1\<rparr>)"
  by code_simp





text \<open>
  C10. A filter supplied as the empty string appends no condition and binds no parameter:
  the conditions (hence the WHERE clause and the parameters) are those of the request
  without that filter. The join, however, is chosen by \<^verbatim>\<open>nombre_juez is not None\<close>:
  with \<^verbatim>\<open>nombre_juez=""\<close> the inner join chain is used with no condition on the judge,
  so a decision without any association is in no page, and \<open>total_count\<close> counts only the
  decisions associated with a judge of the judges table.
\<close>

theorem empty_string_filter:
  "condiciones (f\<lparr>p_codigo_organo := Some ''''\<rparr>) = condiciones (f\<lparr>p_codigo_organo := None\<rparr>) \<and>
   condiciones (f\<lparr>p_codigo_recurso := Some ''''\<rparr>) = condiciones (f\<lparr>p_codigo_recurso := None\<rparr>) \<and>
   condiciones (f\<lparr>p_especialidad_expe := Some ''''\<rparr>) = condiciones (f\<lparr>p_especialidad_expe := None\<rparr>) \<and>
   condiciones (f\<lparr>p_organo_detalle := Some ''''\<rparr>) = condiciones (f\<lparr>p_organo_detalle := None\<rparr>) \<and>
   condiciones (f\<lparr>p_nombre_juez := Some ''''\<rparr>) = condiciones (f\<lparr>p_nombre_juez := None\<rparr>) \<and>
   where_sql (f\<lparr>p_nombre_juez := Some ''''\<rparr>) = where_sql (f\<lparr>p_nombre_juez := None\<rparr>) \<and>
   params (f\<lparr>p_nombre_juez := Some ''''\<rparr>) = params (f\<lparr>p_nombre_juez := None\<rparr>) \<and>
   necesita_join_jueces (f\<lparr>p_nombre_juez := Some ''''\<rparr>) \<and>
   \<not> necesita_join_jueces (f\<lparr>p_nombre_juez := None\<rparr>) \<and>
   from_clause (f\<lparr>p_nombre_juez := Some ''''\<rparr>) =
     ''sentencias_y_autos s JOIN sentencias_jueces sj ON sj.ndetalle = s.ndetalle JOIN jueces j ON j.codigo = sj.codigo'' \<and>
   (buscar_sentencias e (f\<lparr>p_nombre_juez := Some ''''\<rparr>) limit offset = (Inr r, c) \<and>
    s \<in> set (sentencias_y_autos (datos e)) \<and>
    (\<forall>sj \<in> set (sentencias_jueces (datos e)). sj_ndetalle sj \<noteq> ndetalle s) \<longrightarrow>
      ndetalle s \<notin> fst ` set (items r) \<and>
      total_count r = card (ndetalle ` {s' \<in> set (sentencias_y_autos (datos e)). cumple_directos f s' \<and>
        (\<exists>sj \<in> set (sentencias_jueces (datos e)). \<exists>j \<in> set (jueces (datos e)).
           sj_ndetalle sj = ndetalle s' \<and> codigo j = sj_codigo sj)}))"
proof (intro conjI impI)
  show "where_sql (f\<lparr>p_nombre_juez := Some ''''\<rparr>) = where_sql (f\<lparr>p_nombre_juez := None\<rparr>)"
    by (simp add: where_sql_def filtros_where_def condiciones_vacio)
  show "params (f\<lparr>p_nombre_juez := Some ''''\<rparr>) = params (f\<lparr>p_nombre_juez := None\<rparr>)"
    by (simp add: params_def condiciones_vacio)
  show "necesita_join_jueces (f\<lparr>p_nombre_juez := Some ''''\<rparr>)"
    by (simp add: necesita_join_jueces_def)
  show "\<not> necesita_join_jueces (f\<lparr>p_nombre_juez := None\<rparr>)"
    by (simp add: necesita_join_jueces_def)
  show "from_clause (f\<lparr>p_nombre_juez := Some ''''\<rparr>) =
     ''sentencias_y_autos s JOIN sentencias_jueces sj ON sj.ndetalle = s.ndetalle JOIN jueces j ON j.codigo = sj.codigo''"
    by (simp add: from_clause_def necesita_join_jueces_def)
next
  assume h: "buscar_sentencias e (f\<lparr>p_nombre_juez := Some ''''\<rparr>) limit offset = (Inr r, c) \<and>
    s \<in> set (sentencias_y_autos (datos e)) \<and>
    (\<forall>sj \<in> set (sentencias_jueces (datos e)). sj_ndetalle sj \<noteq> ndetalle s)"
  then have b: "buscar_sentencias e (f\<lparr>p_nombre_juez := Some ''''\<rparr>) limit offset = (Inr r, c)"
    by simp
  show "ndetalle s \<notin> fst ` set (items r)"
  proof
    assume "ndetalle s \<in> fst ` set (items r)"
    with items_keys [OF b] obtain s' where
      "s' \<in> decisiones_que_cumplen (datos e) (f\<lparr>p_nombre_juez := Some ''''\<rparr>)" "ndetalle s' = ndetalle s"
      by force
    then obtain sj where "sj \<in> set (sentencias_jueces (datos e))" "sj_ndetalle sj = ndetalle s"
      unfolding decisiones_juez_vacio by auto
    with h show False by blast
  qed
  show "total_count r = card (ndetalle ` {s' \<in> set (sentencias_y_autos (datos e)). cumple_directos f s' \<and>
        (\<exists>sj \<in> set (sentencias_jueces (datos e)). \<exists>j \<in> set (jueces (datos e)).
           sj_ndetalle sj = ndetalle s' \<and> codigo j = sj_codigo sj)})"
    using buscar_sentencias_Inr(6) [OF b] by (simp only: decisiones_juez_vacio)
qed (rule condiciones_vacio)+

lemma buscar_ejemplo_juez_vacio:
  "buscar_sentencias entorno_ejemplo (sin_filtros\<lparr>p_nombre_juez := Some ''''\<rparr>) 10 0 = (Inr \<lparr>total_count = 1, items = [(''1'', Some ''a.pdf'')]\<rparr>, \<lparr>abiertas = 1, cerradas = 1\<rparr>)"
  by code_simp

theorem empty_string_filter_witness:
  "buscar_sentencias entorno_ejemplo (sin_filtros\<lparr>p_nombre_juez := Some ''''\<rparr>) 10 0 = (Inr \<lparr>total_count = 1, items = [(''1'', Some ''a.pdf'')]\<rparr>, \<lparr>abiertas = 1, cerradas = 1\<rparr>) \<and>
   \<lparr>ndetalle = ''2'', codigo_organo = Some ''B'', codigo_recurso = Some ''R1'', especialidad_expe = Some ''CIVIL'', organo_detalle = Some ''SALA'', url = None\<rparr> \<in> set (sentencias_y_autos (datos entorno_ejemplo)) \<and>
   ndetalle \<lparr>ndetalle = ''2'', codigo_organo = Some ''B'', codigo_recurso = Some ''R1'', especialidad_expe = Some ''CIVIL'', organo_detalle = Some ''SALA'', url = None\<rparr> \<notin> set (map sj_ndetalle (sentencias_jueces (datos entorno_ejemplo))) \<and>
   ndetalle \<lparr>ndetalle = ''2'', codigo_organo = Some ''B'', codigo_recurso = Some ''R1'', especialidad_expe = Some ''CIVIL'', organo_detalle = Some ''SALA'', url = None\<rparr> \<notin> fst ` set (items \<lparr>total_count = 1, items = [(''1'', Some ''a.pdf'')]\<rparr>)"
proof -
  have m: "\<lparr>ndetalle = ''2'', codigo_organo = Some ''B'', codigo_recurso = Some ''R1'', especialidad_expe = Some ''CIVIL'', organo_detalle = Some ''SALA'', url = None\<rparr> \<in> set (sentencias_y_autos (datos entorno_ejemplo))"
    by (simp add: datos_ejemplo bd_ejemplo_def)
  have a: "\<forall>sj \<in> set (sentencias_jueces (datos entorno_ejemplo)). sj_ndetalle sj \<noteq> ndetalle \<lparr>ndetalle = ''2'', codigo_organo = Some ''B'', codigo_recurso = Some ''R1'', especialidad_expe = Some ''CIVIL'', organo_detalle = Some ''SALA'', url = None\<rparr>"
    by (simp add: datos_ejemplo bd_ejemplo_def)
  from empty_string_filter [where f = sin_filtros and e = entorno_ejemplo and limit = 10
      and offset = 0 and r = "\<lparr>total_count = 1, items = [(''1'', Some ''a.pdf'')]\<rparr>" and c = "\<lparr>abiertas = 1, cerradas = 1\<rparr>" and s = "\<lparr>ndetalle = ''2'', codigo_organo = Some ''B'', codigo_recurso = Some ''R1'', especialidad_expe = Some ''CIVIL'', organo_detalle = Some ''SALA'', url = None\<rparr>"]
    buscar_ejemplo_juez_vacio m a
  have "ndetalle \<lparr>ndetalle = ''2'', codigo_organo = Some ''B'', codigo_recurso = Some ''R1'', especialidad_expe = Some ''CIVIL'', organo_detalle = Some ''SALA'', url = None\<rparr> \<notin> fst ` set (items \<lparr>total_count = 1, items = [(''1'', Some ''a.pdf'')]\<rparr>)" by blast
  moreover have "ndetalle \<lparr>ndetalle = ''2'', codigo_organo = Some ''B'', codigo_recurso = Some ''R1'', especialidad_expe = Some ''CIVIL'', organo_detalle = Some ''SALA'', url = None\<rparr> \<notin> set (map sj_ndetalle (sentencias_jueces (datos entorno_ejemplo)))"
    by (simp add: datos_ejemplo bd_ejemplo_def)
  ultimately show ?thesis using buscar_ejemplo_juez_vacio m by blast
qed

lemma filter_clave_unica:
  "distinct (map f xs) \<Longrightarrow> x \<in> set xs \<Longrightarrow> filter (\<lambda>y. f y = f x) xs = [x]"
proof (induction xs)
  case Nil
  then show ?case by simp
next
  case (Cons a xs)
  show ?case
  proof (cases "a = x")
    case True
    have "filter (\<lambda>y. f y = f x) xs = []"
      using Cons.prems True by (force simp: filter_empty_conv image_iff)
    with True show ?thesis by simp
  next
    case False
    then have "x \<in> set xs" using Cons.prems by simp
    moreover have "f a \<noteq> f x" using Cons.prems \<open>x \<in> set xs\<close> by auto
    ultimately show ?thesis using Cons by simp
  qed
qed

lemma fetchone_ninguno:
  "\<not> (\<exists>s \<in> set (sentencias_y_autos d). ndetalle s = nd) \<Longrightarrow>
   fetchone (seleccionar_url d nd) = None"
  by (simp add: fetchone_def seleccionar_url_def filter_empty_conv)

lemma fetchone_unico:
  assumes "distinct (map ndetalle (sentencias_y_autos d))"
    and "s \<in> set (sentencias_y_autos d)" and "ndetalle s = nd"
  shows "fetchone (seleccionar_url d nd) = Some (url s)"
proof -
  have "filter (\<lambda>y. ndetalle y = ndetalle s) (sentencias_y_autos d) = [s]"
    using assms(1,2) by (rule filter_clave_unica)
  then show ?thesis using assms(3) by (simp add: fetchone_def seleccionar_url_def)
qed

lemma generar_url_ninguno:
  assumes "conecta e" "\<not> consulta_falla e 0" "\<not> con_nul nd"
    and "\<not> (\<exists>s \<in> set (sentencias_y_autos (datos e)). ndetalle s = nd)"
  shows "generar_url e nd = (Inl NotFound, \<lparr>abiertas = 1, cerradas = 1\<rparr>)"
  using assms(1,2,3) fetchone_ninguno [OF assms(4)] by (simp add: generar_url_def)

lemma generar_url_unico:
  assumes "conecta e" "\<not> consulta_falla e 0" "\<not> con_nul nd"
    and "distinct (map ndetalle (sentencias_y_autos (datos e)))"
    and "s \<in> set (sentencias_y_autos (datos e))" and "ndetalle s = nd"
  shows "generar_url e nd =
     (case url s of
        None \<Rightarrow> (Inl NotFound, \<lparr>abiertas = 1, cerradas = 1\<rparr>)
      | Some b \<Rightarrow>
          (case generate_signed_url e b ''v4'' (timedelta_minutes 15) ''GET'' of
             None \<Rightarrow> (Inl StoreFailure, \<lparr>abiertas = 1, cerradas = 1\<rparr>)
           | Some u \<Rightarrow> (Inr u, \<lparr>abiertas = 1, cerradas = 1\<rparr>)))"
  using assms(1,2,3) fetchone_unico [OF assms(4,5,6)]
  by (simp add: generar_url_def split: option.splits)

lemma generar_ejemplo_1:
  "generar_url entorno_ejemplo ''1'' = (Inr ''https://storage/a.pdf?v4&GET'', \<lparr>abiertas = 1, cerradas = 1\<rparr>)"
  by code_simp

lemma generar_ejemplo_2:
  "generar_url entorno_ejemplo ''2'' = (Inl NotFound, \<lparr>abiertas = 1, cerradas = 1\<rparr>)"
  by code_simp

section \<open>The download handler\<close>

text \<open>
  C6 (as amended). When the store serves the request, the identifier holds no NUL
  character and identifiers are unique in the decision table, \<open>generar_url\<close> fails with
  \<open>NotFound\<close> (the HTTP 404) if and only if no decision has the identifier or the decision
  that has it carries a null storage path; otherwise its one result is what the signer
  answers for that path with version v4, a validity of 15 minutes and method GET.
\<close>

theorem resolve_download_not_found_iff:
  "almacen_disponible e \<and> \<not> con_nul nd \<and>
   distinct (map ndetalle (sentencias_y_autos (datos e))) \<longrightarrow>
     (fst (generar_url e nd) = Inl NotFound \<longleftrightarrow>
        \<not> (\<exists>s \<in> set (sentencias_y_autos (datos e)). ndetalle s = nd) \<or>
        (\<exists>s \<in> set (sentencias_y_autos (datos e)). ndetalle s = nd \<and> url s = None)) \<and>
     (\<forall>s \<in> set (sentencias_y_autos (datos e)). \<forall>b. ndetalle s = nd \<and> url s = Some b \<longrightarrow>
        fst (generar_url e nd) =
          (case generate_signed_url e b ''v4'' (timedelta_minutes 15) ''GET'' of
             None \<Rightarrow> Inl StoreFailure | Some u \<Rightarrow> Inr u)) \<and>
     timedelta_minutes 15 = 15 * 60"
proof
  assume h: "almacen_disponible e \<and> \<not> con_nul nd \<and>
    distinct (map ndetalle (sentencias_y_autos (datos e)))"
  then have ok: "conecta e" "\<not> consulta_falla e 0" "\<not> con_nul nd"
    and d: "distinct (map ndetalle (sentencias_y_autos (datos e)))"
    using almacen_disponible_01 [of e] by simp_all
  have firmado: "fst (generar_url e nd) =
          (case generate_signed_url e b ''v4'' (timedelta_minutes 15) ''GET'' of
             None \<Rightarrow> Inl StoreFailure | Some u \<Rightarrow> Inr u)"
    if "s \<in> set (sentencias_y_autos (datos e))" "ndetalle s = nd" "url s = Some b" for s b
    using generar_url_unico [OF ok d that(1,2)] that(3) by (simp split: option.splits)
  have nulo: "fst (generar_url e nd) = Inl NotFound"
    if "s \<in> set (sentencias_y_autos (datos e))" "ndetalle s = nd" "url s = None" for s
    using generar_url_unico [OF ok d that(1,2)] that(3) by simp
  have ninguno: "fst (generar_url e nd) = Inl NotFound"
    if "\<not> (\<exists>s \<in> set (sentencias_y_autos (datos e)). ndetalle s = nd)"
    using generar_url_ninguno [OF ok that] by simp
  have solo: "\<not> (\<exists>s \<in> set (sentencias_y_autos (datos e)). ndetalle s = nd) \<or>
        (\<exists>s \<in> set (sentencias_y_autos (datos e)). ndetalle s = nd \<and> url s = None)"
    if nf: "fst (generar_url e nd) = Inl NotFound"
  proof (rule ccontr)
    assume c: "\<not> ?thesis"
    then obtain s where s: "s \<in> set (sentencias_y_autos (datos e))" "ndetalle s = nd" by blast
    with c obtain b where "url s = Some b" by (cases "url s") auto
    from firmado [OF s this] nf show False by (simp split: option.splits)
  qed
  have "fst (generar_url e nd) = Inl NotFound \<longleftrightarrow>
        \<not> (\<exists>s \<in> set (sentencias_y_autos (datos e)). ndetalle s = nd) \<or>
        (\<exists>s \<in> set (sentencias_y_autos (datos e)). ndetalle s = nd \<and> url s = None)"
    using solo ninguno nulo by blast
  moreover have "\<forall>s \<in> set (sentencias_y_autos (datos e)). \<forall>b. ndetalle s = nd \<and> url s = Some b \<longrightarrow>
        fst (generar_url e nd) =
          (case generate_signed_url e b ''v4'' (timedelta_minutes 15) ''GET'' of
             None \<Rightarrow> Inl StoreFailure | Some u \<Rightarrow> Inr u)"
    using firmado by blast
  moreover have "timedelta_minutes 15 = 15 * 60" by (simp add: timedelta_minutes_def)
  ultimately show "(fst (generar_url e nd) = Inl NotFound \<longleftrightarrow>
        \<not> (\<exists>s \<in> set (sentencias_y_autos (datos e)). ndetalle s = nd) \<or>
        (\<exists>s \<in> set (sentencias_y_autos (datos e)). ndetalle s = nd \<and> url s = None)) \<and>
     (\<forall>s \<in> set (sentencias_y_autos (datos e)). \<forall>b. ndetalle s = nd \<and> url s = Some b \<longrightarrow>
        fst (generar_url e nd) =
          (case generate_signed_url e b ''v4'' (timedelta_minutes 15) ''GET'' of
             None \<Rightarrow> Inl StoreFailure | Some u \<Rightarrow> Inr u)) \<and>
     timedelta_minutes 15 = 15 * 60"
    by blast
qed

theorem resolve_download_not_found_iff_witness:
  "almacen_disponible entorno_ejemplo \<and> \<not> con_nul ''2'' \<and> \<not> con_nul ''9'' \<and>
   distinct (map ndetalle (sentencias_y_autos (datos entorno_ejemplo))) \<and>
   fst (generar_url entorno_ejemplo ''2'') = Inl NotFound \<and>
   fst (generar_url entorno_ejemplo ''9'') = Inl NotFound \<and>
   generar_url entorno_ejemplo ''1'' = (Inr ''https://storage/a.pdf?v4&GET'', \<lparr>abiertas = 1, cerradas = 1\<rparr>)"
proof -
  have d: "distinct (map ndetalle (sentencias_y_autos (datos entorno_ejemplo)))"
    by (simp add: datos_ejemplo bd_ejemplo_def)
  have z: "\<not> con_nul ''2''" "\<not> con_nul ''9''" by (simp_all add: con_nul_def)
  have n2: "\<exists>s \<in> set (sentencias_y_autos (datos entorno_ejemplo)). ndetalle s = ''2'' \<and> url s = None"
    by (simp add: datos_ejemplo bd_ejemplo_def)
  have n9: "\<not> (\<exists>s \<in> set (sentencias_y_autos (datos entorno_ejemplo)). ndetalle s = ''9'')"
    by (simp add: datos_ejemplo bd_ejemplo_def)
  from resolve_download_not_found_iff [where e = entorno_ejemplo and nd = "''2''"]
    almacen_disponible_ejemplo d z(1) n2
  have a: "fst (generar_url entorno_ejemplo ''2'') = Inl NotFound" by blast
  from resolve_download_not_found_iff [where e = entorno_ejemplo and nd = "''9''"]
    almacen_disponible_ejemplo d z(2) n9
  have b: "fst (generar_url entorno_ejemplo ''9'') = Inl NotFound" by blast
  from almacen_disponible_ejemplo d z a b generar_ejemplo_1 show ?thesis by blast
qed

text \<open>
  The claim as written covers every identifier, and fails for one that holds a NUL
  character: no decision of the example registry has it, yet the handler does not answer
  \<open>NotFound\<close>; the binding fails, with the connection still open.
\<close>

theorem resolve_download_nul_counterexample:
  "map ndetalle (sentencias_y_autos (datos entorno_ejemplo)) = [''1'', ''3'', ''2''] \<and>
   generar_url entorno_ejemplo [CHR 0x00] = (Inl ValueError, \<lparr>abiertas = 1, cerradas = 0\<rparr>)"
  by code_simp

lemma set_valores_distintos:
  "set (valores_distintos col d) = {v. \<exists>s \<in> set (sentencias_y_autos d). col s = Some v}"
  by (force simp: valores_distintos_def map_filter_def)

lemma set_jueces_con_sentencia:
  "set (jueces_con_sentencia d) =
     {j \<in> set (jueces d). \<exists>sj \<in> set (sentencias_jueces d). \<exists>s \<in> set (sentencias_y_autos d).
        sj_codigo sj = codigo j \<and> ndetalle s = sj_ndetalle sj}"
  by (auto simp: jueces_con_sentencia_def)

lemma set_nombres_distintos:
  "set (nombres_distintos d) =
     {v. \<exists>j \<in> set (jueces d). \<exists>sj \<in> set (sentencias_jueces d). \<exists>s \<in> set (sentencias_y_autos d).
        sj_codigo sj = codigo j \<and> ndetalle s = sj_ndetalle sj \<and> nombre_juez j = Some v}"
proof -
  have "set (nombres_distintos d) = {v. \<exists>j \<in> set (jueces_con_sentencia d). nombre_juez j = Some v}"
    by (force simp: nombres_distintos_def map_filter_def)
  then show ?thesis unfolding set_jueces_con_sentencia by blast
qed

lemma distinct_valores: "distinct (valores_distintos col d)" "distinct (nombres_distintos d)"
  by (simp_all add: valores_distintos_def nombres_distintos_def)

lemma lista_ordenada_sort: "distinct xs \<Longrightarrow> set xs = A \<Longrightarrow> lista_ordenada_de (sort xs) A"
  by (simp add: lista_ordenada_de_def)

lemma obtener_ejemplo:
  "obtener_filtros entorno_ejemplo =
     (Inr \<lparr>r_codigo_organo = [''A'', ''B''], r_codigo_recurso = [''R1''],
           r_especialidad_expe = [''CIVIL'', ''PENAL''], r_organo_detalle = [''SALA''],
           r_nombre_juez = [''ANA'', ''LUIS'']\<rparr>,
      \<lparr>abiertas = 1, cerradas = 1\<rparr>)"
  by code_simp

section \<open>The filter catalogue\<close>

text \<open>
  C7. When the store serves the request, \<open>obtener_filtros\<close> returns five lists. For each
  of the four attributes of the decision table the list holds exactly the non-null values
  found in the table, ascending and each once; the list of judge names holds exactly the
  non-null names of the judges that an association links to a decision of the table,
  ascending and each once. The lists are lists of strings: they hold no null.
\<close>

theorem filter_catalog_sorted_distinct:
  "almacen_disponible e \<longrightarrow>
     (\<exists>r c. obtener_filtros e = (Inr r, c) \<and>
        lista_ordenada_de (r_codigo_organo r)
          {v. \<exists>s \<in> set (sentencias_y_autos (datos e)). codigo_organo s = Some v} \<and>
        lista_ordenada_de (r_codigo_recurso r)
          {v. \<exists>s \<in> set (sentencias_y_autos (datos e)). codigo_recurso s = Some v} \<and>
        lista_ordenada_de (r_especialidad_expe r)
          {v. \<exists>s \<in> set (sentencias_y_autos (datos e)). especialidad_expe s = Some v} \<and>
        lista_ordenada_de (r_organo_detalle r)
          {v. \<exists>s \<in> set (sentencias_y_autos (datos e)). organo_detalle s = Some v} \<and>
        lista_ordenada_de (r_nombre_juez r)
          {v. \<exists>j \<in> set (jueces (datos e)). \<exists>sj \<in> set (sentencias_jueces (datos e)).
                \<exists>s \<in> set (sentencias_y_autos (datos e)).
                  sj_codigo sj = codigo j \<and> ndetalle s = sj_ndetalle sj \<and> nombre_juez j = Some v})"
proof
  assume h: "almacen_disponible e"
  then have ok: "conecta e" "\<not> consulta_falla e 0" "\<not> consulta_falla e 1" "\<not> consulta_falla e 2"
    "\<not> consulta_falla e 3" "\<not> consulta_falla e 4"
    by (simp_all add: almacen_disponible_def)
  let ?r = "\<lparr>r_codigo_organo = sort (valores_distintos codigo_organo (datos e)),
             r_codigo_recurso = sort (valores_distintos codigo_recurso (datos e)),
             r_especialidad_expe = sort (valores_distintos especialidad_expe (datos e)),
             r_organo_detalle = sort (valores_distintos organo_detalle (datos e)),
             r_nombre_juez = sort (nombres_distintos (datos e))\<rparr>"
  have b: "obtener_filtros e = (Inr ?r, \<lparr>abiertas = 1, cerradas = 1\<rparr>)"
    using ok by (simp add: obtener_filtros_def)
  have v: "lista_ordenada_de (sort (valores_distintos col (datos e)))
             {v. \<exists>s \<in> set (sentencias_y_autos (datos e)). col s = Some v}" for col
    by (rule lista_ordenada_sort [OF distinct_valores(1) set_valores_distintos])
  have n: "lista_ordenada_de (sort (nombres_distintos (datos e)))
          {v. \<exists>j \<in> set (jueces (datos e)). \<exists>sj \<in> set (sentencias_jueces (datos e)).
                \<exists>s \<in> set (sentencias_y_autos (datos e)).
                  sj_codigo sj = codigo j \<and> ndetalle s = sj_ndetalle sj \<and> nombre_juez j = Some v}"
    by (rule lista_ordenada_sort [OF distinct_valores(2) set_nombres_distintos])
  show "\<exists>r c. obtener_filtros e = (Inr r, c) \<and>
        lista_ordenada_de (r_codigo_organo r)
          {v. \<exists>s \<in> set (sentencias_y_autos (datos e)). codigo_organo s = Some v} \<and>
        lista_ordenada_de (r_codigo_recurso r)
          {v. \<exists>s \<in> set (sentencias_y_autos (datos e)). codigo_recurso s = Some v} \<and>
        lista_ordenada_de (r_especialidad_expe r)
          {v. \<exists>s \<in> set (sentencias_y_autos (datos e)). especialidad_expe s = Some v} \<and>
        lista_ordenada_de (r_organo_detalle r)
          {v. \<exists>s \<in> set (sentencias_y_autos (datos e)). organo_detalle s = Some v} \<and>
        lista_ordenada_de (r_nombre_juez r)
          {v. \<exists>j \<in> set (jueces (datos e)). \<exists>sj \<in> set (sentencias_jueces (datos e)).
                \<exists>s \<in> set (sentencias_y_autos (datos e)).
                  sj_codigo sj = codigo j \<and> ndetalle s = sj_ndetalle sj \<and> nombre_juez j = Some v}"
    apply (rule exI [of _ ?r], rule exI [of _ "\<lparr>abiertas = 1, cerradas = 1\<rparr>"])
    apply (simp only: respuesta_filtros.simps)
    apply (intro conjI b v n)
    done
qed

theorem filter_catalog_sorted_distinct_witness:
  "almacen_disponible entorno_ejemplo \<and>
   obtener_filtros entorno_ejemplo = (Inr \<lparr>r_codigo_organo = [''A'', ''B''], r_codigo_recurso = [''R1''],
        r_especialidad_expe = [''CIVIL'', ''PENAL''], r_organo_detalle = [''SALA''],
        r_nombre_juez = [''ANA'', ''LUIS'']\<rparr>, \<lparr>abiertas = 1, cerradas = 1\<rparr>) \<and>
   lista_ordenada_de [''ANA'', ''LUIS'']
     {v. \<exists>j \<in> set (jueces (datos entorno_ejemplo)). \<exists>sj \<in> set (sentencias_jueces (datos entorno_ejemplo)).
                \<exists>s \<in> set (sentencias_y_autos (datos entorno_ejemplo)).
                  sj_codigo sj = codigo j \<and> ndetalle s = sj_ndetalle sj \<and> nombre_juez j = Some v}"
proof -
  from filter_catalog_sorted_distinct [where e = entorno_ejemplo] almacen_disponible_ejemplo
  obtain r c where r: "obtener_filtros entorno_ejemplo = (Inr r, c)"
    and j: "lista_ordenada_de (r_nombre_juez r)
     {v. \<exists>j \<in> set (jueces (datos entorno_ejemplo)). \<exists>sj \<in> set (sentencias_jueces (datos entorno_ejemplo)).
                \<exists>s \<in> set (sentencias_y_autos (datos entorno_ejemplo)).
                  sj_codigo sj = codigo j \<and> ndetalle s = sj_ndetalle sj \<and> nombre_juez j = Some v}"
    by blast
  from r have "r_nombre_juez r = [''ANA'', ''LUIS'']"
    by (auto simp: obtener_ejemplo)
  with j almacen_disponible_ejemplo obtener_ejemplo show ?thesis by simp
qed

section \<open>Connections\<close>

lemma generar_url_conexiones:
  "snd (generar_url e nd) =
     (if \<not> conecta e then \<lparr>abiertas = 0, cerradas = 0\<rparr>
      else if consulta_falla e 0 \<or> con_nul nd then \<lparr>abiertas = 1, cerradas = 0\<rparr>
      else \<lparr>abiertas = 1, cerradas = 1\<rparr>)"
  by (simp add: generar_url_def split: option.splits)

lemma generar_url_error:
  "fst (generar_url e nd) = Inl NotFound \<Longrightarrow> conecta e \<and> \<not> consulta_falla e 0 \<and> \<not> con_nul nd"
  by (auto simp: generar_url_def split: if_splits option.splits)

lemma obtener_filtros_conexiones:
  "snd (obtener_filtros e) =
     (if \<not> conecta e then \<lparr>abiertas = 0, cerradas = 0\<rparr>
      else if consulta_falla e 0 \<or> consulta_falla e 1 \<or> consulta_falla e 2 \<or>
              consulta_falla e 3 \<or> consulta_falla e 4
      then \<lparr>abiertas = 1, cerradas = 0\<rparr>
      else \<lparr>abiertas = 1, cerradas = 1\<rparr>)"
  by (simp add: obtener_filtros_def)

lemma buscar_sentencias_conexiones:
  "snd (buscar_sentencias e f l k) =
     (if \<not> conecta e then \<lparr>abiertas = 0, cerradas = 0\<rparr>
      else if consulta_falla e 0 \<or> filtros_con_nul f \<or> consulta_falla e 1 \<or>
              \<not> limite_valido l \<or> \<not> limite_valido k
      then \<lparr>abiertas = 1, cerradas = 0\<rparr>
      else \<lparr>abiertas = 1, cerradas = 1\<rparr>)"
  by (simp add: buscar_sentencias_eq)

text \<open>
  C9 (as amended). Every handler opens one connection at entry, and has closed it when it
  returns exactly when every execution it made on the store succeeded. So the connection is
  closed on the success path, and \<open>generar_url\<close> has closed it before it answers
  \<open>NotFound\<close> and before it calls the signer, whatever the signer does. When an execution
  fails (the store fails any one of them, rejects the limit or the offset, or a value to bind
  holds a NUL character) the handler returns with the connection it opened still open; when
  the connection cannot be opened there is none to close.
\<close>

theorem connection_released_iff_executions_succeed:
  "snd (generar_url e nd) =
     (if \<not> conecta e then \<lparr>abiertas = 0, cerradas = 0\<rparr>
      else if consulta_falla e 0 \<or> con_nul nd then \<lparr>abiertas = 1, cerradas = 0\<rparr>
      else \<lparr>abiertas = 1, cerradas = 1\<rparr>) \<and>
   snd (obtener_filtros e) =
     (if \<not> conecta e then \<lparr>abiertas = 0, cerradas = 0\<rparr>
      else if consulta_falla e 0 \<or> consulta_falla e 1 \<or> consulta_falla e 2 \<or>
              consulta_falla e 3 \<or> consulta_falla e 4
      then \<lparr>abiertas = 1, cerradas = 0\<rparr>
      else \<lparr>abiertas = 1, cerradas = 1\<rparr>) \<and>
   snd (buscar_sentencias e f limit offset) =
     (if \<not> conecta e then \<lparr>abiertas = 0, cerradas = 0\<rparr>
      else if consulta_falla e 0 \<or> filtros_con_nul f \<or> consulta_falla e 1 \<or>
              \<not> limite_valido limit \<or> \<not> limite_valido offset
      then \<lparr>abiertas = 1, cerradas = 0\<rparr>
      else \<lparr>abiertas = 1, cerradas = 1\<rparr>) \<and>
   (fst (generar_url e nd) = Inl NotFound \<longrightarrow>
      snd (generar_url e nd) = \<lparr>abiertas = 1, cerradas = 1\<rparr>) \<and>
   (conecta e \<and> \<not> consulta_falla e 0 \<and> \<not> con_nul nd \<and>
    fetchone (seleccionar_url (datos e) nd) = Some (Some b) \<and>
    generate_signed_url e b ''v4'' (timedelta_minutes 15) ''GET'' = None \<longrightarrow>
      generar_url e nd = (Inl StoreFailure, \<lparr>abiertas = 1, cerradas = 1\<rparr>))"
proof (intro conjI impI)
  show "snd (generar_url e nd) = \<lparr>abiertas = 1, cerradas = 1\<rparr>"
    if "fst (generar_url e nd) = Inl NotFound"
    using generar_url_error [OF that] by (simp add: generar_url_conexiones)
  show "generar_url e nd = (Inl StoreFailure, \<lparr>abiertas = 1, cerradas = 1\<rparr>)"
    if "conecta e \<and> \<not> consulta_falla e 0 \<and> \<not> con_nul nd \<and>
        fetchone (seleccionar_url (datos e) nd) = Some (Some b) \<and>
        generate_signed_url e b ''v4'' (timedelta_minutes 15) ''GET'' = None"
    using that by (simp add: generar_url_def)
qed (rule generar_url_conexiones obtener_filtros_conexiones buscar_sentencias_conexiones)+

lemma entorno_falla_campos:
  "conecta (entorno_falla n)" "consulta_falla (entorno_falla n) k = (k = n)"
  "conecta entorno_ejemplo" "consulta_falla entorno_ejemplo k = False"
  by (simp_all add: entorno_falla_def entorno_ejemplo_def)

theorem connection_released_iff_executions_succeed_witness:
  "snd (generar_url entorno_ejemplo ''2'') = \<lparr>abiertas = 1, cerradas = 1\<rparr> \<and>
   snd (obtener_filtros entorno_ejemplo) = \<lparr>abiertas = 1, cerradas = 1\<rparr> \<and>
   snd (buscar_sentencias entorno_ejemplo sin_filtros 10 0) = \<lparr>abiertas = 1, cerradas = 1\<rparr> \<and>
   snd (obtener_filtros (entorno_falla 3)) = \<lparr>abiertas = 1, cerradas = 0\<rparr> \<and>
   snd (buscar_sentencias (entorno_falla 1) sin_filtros 10 0) = \<lparr>abiertas = 1, cerradas = 0\<rparr> \<and>
   snd (buscar_sentencias entorno_ejemplo sin_filtros (- 1) 0) = \<lparr>abiertas = 1, cerradas = 0\<rparr> \<and>
   snd (generar_url entorno_ejemplo [CHR 0x00]) = \<lparr>abiertas = 1, cerradas = 0\<rparr>"
proof -
  have z: "\<not> con_nul ''2''" "con_nul [CHR 0x00]" by (simp_all add: con_nul_def)
  have l: "\<not> limite_valido (- 1)" by (simp add: limite_valido_def)
  note t = connection_released_iff_executions_succeed
  from t [where e = entorno_ejemplo and nd = "''2''" and f = sin_filtros and limit = 10 and offset = 0]
  have a: "snd (generar_url entorno_ejemplo ''2'') = \<lparr>abiertas = 1, cerradas = 1\<rparr>"
    "snd (obtener_filtros entorno_ejemplo) = \<lparr>abiertas = 1, cerradas = 1\<rparr>"
    "snd (buscar_sentencias entorno_ejemplo sin_filtros 10 0) = \<lparr>abiertas = 1, cerradas = 1\<rparr>"
    by (simp_all add: entorno_falla_campos z sin_nul_ejemplos limites_ejemplo)
  from t [where e = "entorno_falla 3"]
  have b: "snd (obtener_filtros (entorno_falla 3)) = \<lparr>abiertas = 1, cerradas = 0\<rparr>"
    by (simp add: entorno_falla_campos)
  from t [where e = "entorno_falla 1" and f = sin_filtros and limit = 10 and offset = 0]
  have c: "snd (buscar_sentencias (entorno_falla 1) sin_filtros 10 0) = \<lparr>abiertas = 1, cerradas = 0\<rparr>"
    by (simp add: entorno_falla_campos sin_nul_ejemplos limites_ejemplo)
  from t [where e = entorno_ejemplo and nd = "[CHR 0x00]" and f = sin_filtros and limit = "- 1" and offset = 0]
  have d: "snd (buscar_sentencias entorno_ejemplo sin_filtros (- 1) 0) = \<lparr>abiertas = 1, cerradas = 0\<rparr>"
    "snd (generar_url entorno_ejemplo [CHR 0x00]) = \<lparr>abiertas = 1, cerradas = 0\<rparr>"
    by (simp_all add: entorno_falla_campos z l sin_nul_ejemplos limites_ejemplo)
  from a b c d show ?thesis by blast
qed

text \<open>
  The claim as written fails on the paths where an execution on the store fails: each
  handler then returns with one connection opened and none closed.
\<close>

theorem connection_leak_counterexample:
  "conecta entorno_caido \<and>
   buscar_sentencias entorno_caido sin_filtros 10 0 = (Inl StoreFailure, \<lparr>abiertas = 1, cerradas = 0\<rparr>) \<and>
   obtener_filtros entorno_caido = (Inl StoreFailure, \<lparr>abiertas = 1, cerradas = 0\<rparr>) \<and>
   generar_url entorno_caido ''1'' = (Inl StoreFailure, \<lparr>abiertas = 1, cerradas = 0\<rparr>)"
  by code_simp

end
